theory Spec2Isabelle
  imports Main "HOL-Library.Sublist"
begin

section \<open>JavaScript strings and values\<close>

text \<open>
  Strings are lists of code units. A \<^typ>\<open>char\<close> has eight bits, so the model covers the
  strings whose code units are below 256 (the Latin-1 range); on these \<open>length\<close> is
  JavaScript's \<open>.length\<close>.
\<close>

text \<open>The code units below 256 that \<open>\s\<close> and \<open>String.prototype.trim\<close> treat as white space:
  TAB, LF, VT, FF, CR, SPACE and NBSP.\<close>

definition isSpace :: "char \<Rightarrow> bool" where
  "isSpace c = (c \<in> set [CHR 0x09, CHR 0x0A, CHR 0x0B, CHR 0x0C, CHR 0x0D, CHR 0x20, CHR 0xA0])"

definition trimStart :: "string \<Rightarrow> string" where
  "trimStart s = dropWhile isSpace s"

definition trim :: "string \<Rightarrow> string" where
  "trim s = rev (trimStart (rev (trimStart s)))"

text \<open>\<open>toLowerCase\<close> on code units below 256: \<open>A\<close>..\<open>Z\<close> and the Latin-1 capitals
  0xC0..0xDE (without the multiplication sign 0xD7) move up by 32. Bit 5 is clear in
  both ranges, so adding 32 sets it.\<close>

definition lowerChar :: "char \<Rightarrow> char" where
  "lowerChar c =
     (let n = (of_char c :: nat)
      in if (65 \<le> n \<and> n \<le> 90) \<or> (192 \<le> n \<and> n \<le> 222 \<and> n \<noteq> 215)
         then (case c of Char b0 b1 b2 b3 b4 b5 b6 b7 \<Rightarrow> Char b0 b1 b2 b3 b4 True b6 b7)
         else c)"

definition toLowerCase :: "string \<Rightarrow> string" where
  "toLowerCase s = map lowerChar s"

text \<open>\<open>s.includes(sub)\<close>: \<open>sub\<close> occurs in \<open>s\<close> as a contiguous run.\<close>

fun str_includes :: "string \<Rightarrow> string \<Rightarrow> bool" where
  "str_includes [] sub = (sub = [])"
| "str_includes (c # cs) sub = (prefix sub (c # cs) \<or> str_includes cs sub)"

definition startsWith :: "string \<Rightarrow> string \<Rightarrow> bool" where
  "startsWith s p = prefix p s"

text \<open>A parsed JSON value, as \<open>req.json()\<close> returns it. An object is the list of its
  properties, each name once; \<open>getProp\<close> reads one (\<open>None\<close> is \<open>undefined\<close>). Numbers
  are integers here: the handlers read of a number only whether it is zero.\<close>

datatype json =
    JNull
  | JBool bool
  | JNum int
  | JStr string
  | JArr "json list"
  | JObj "(string \<times> json) list"

fun falsy :: "json \<Rightarrow> bool" where
  "falsy JNull = True"
| "falsy (JBool b) = (\<not> b)"
| "falsy (JNum n) = (n = 0)"
| "falsy (JStr s) = (s = [])"
| "falsy (JArr xs) = False"
| "falsy (JObj kvs) = False"

fun typeof :: "json \<Rightarrow> string" where
  "typeof JNull = ''object''"
| "typeof (JBool b) = ''boolean''"
| "typeof (JNum n) = ''number''"
| "typeof (JStr s) = ''string''"
| "typeof (JArr xs) = ''object''"
| "typeof (JObj kvs) = ''object''"

fun isArray :: "json \<Rightarrow> bool" where
  "isArray (JArr xs) = True"
| "isArray v = False"

fun getProp :: "json \<Rightarrow> string \<Rightarrow> json option" where
  "getProp (JObj kvs) k = map_of kvs k"
| "getProp v k = None"

text \<open>A thrown value: an instance of \<open>Error\<close> with its message (\<open>new Error(m)\<close>, a
  \<open>TypeError\<close>, a \<open>SyntaxError\<close>), or any other object (the store's error objects are
  plain objects).\<close>

datatype thrown = ErrorObj string | OtherObj

subsection \<open>Numbers\<close>

text \<open>
  A JavaScript number is an IEEE double. The handlers compute with one number only, a
  referral count, which is an integer: the model keeps the integer a double holds.
  \<open>to_double\<close> is the double nearest to an integer (53 significant bits, ties to the
  even significand); \<open>excess_bits\<close> counts the low bits that do not fit. Magnitudes
  stay far below \<open>2 ^ 1024\<close> (a count column has at most 64 bits), so no sum is
  infinite.
\<close>

fun excess_bits :: "nat \<Rightarrow> nat" where
  "excess_bits a = (if a < 2 ^ 53 then 0 else Suc (excess_bits (a div 2)))"

declare excess_bits.simps [simp del]

definition to_double :: "int \<Rightarrow> int" where
  "to_double x =
     (let a = nat \<bar>x\<bar>; k = excess_bits a
      in if k = 0 then x
         else
           (let u = 2 ^ k; q = a div u; r = a mod u;
                m = (if 2 * r > u \<or> (2 * r = u \<and> odd q) then q + 1 else q)
            in sgn x * int (m * u)))"

text \<open>The number that \<open>JSON.parse\<close> makes of an integer of the store, and \<open>a + b\<close> on
  numbers that hold integers.\<close>

definition number_of_int :: "int \<Rightarrow> int" where
  "number_of_int c = to_double c"

definition js_add :: "int \<Rightarrow> int \<Rightarrow> int" where
  "js_add a b = to_double (a + b)"

section \<open>Signup validation\<close>

record signup_body =
  body_full_name :: string
  body_email :: string
  body_brand_name :: "string option"
  body_ref :: "string option"

text \<open>\<open>/^[^\s@]+@[^\s@]+\.[^\s@]+$/\<close>, read left to right. \<open>notSpaceAt\<close> is the class
  \<open>[^\s@]\<close>; each function is the rest of the pattern from its position on. An \<open>@\<close>
  can only be the literal of the pattern; a dot after the \<open>@\<close> is either the literal dot
  or one more character of the class.\<close>

definition notSpaceAt :: "char \<Rightarrow> bool" where
  "notSpaceAt c = (\<not> isSpace c \<and> c \<noteq> CHR ''@'')"

fun rx_tld :: "string \<Rightarrow> bool" where
  "rx_tld [] = False"
| "rx_tld (c # cs) = (notSpaceAt c \<and> (cs = [] \<or> rx_tld cs))"

fun rx_domain_rest :: "string \<Rightarrow> bool" where
  "rx_domain_rest [] = False"
| "rx_domain_rest (c # cs) =
     (if c = CHR ''.'' then rx_tld cs \<or> rx_domain_rest cs
      else notSpaceAt c \<and> rx_domain_rest cs)"

fun rx_domain :: "string \<Rightarrow> bool" where
  "rx_domain [] = False"
| "rx_domain (c # cs) = (notSpaceAt c \<and> rx_domain_rest cs)"

fun rx_local_rest :: "string \<Rightarrow> bool" where
  "rx_local_rest [] = False"
| "rx_local_rest (c # cs) =
     (if c = CHR ''@'' then rx_domain cs else notSpaceAt c \<and> rx_local_rest cs)"

fun EMAIL_REGEX_test :: "string \<Rightarrow> bool" where
  "EMAIL_REGEX_test [] = False"
| "EMAIL_REGEX_test (c # cs) = (notSpaceAt c \<and> rx_local_rest cs)"

subsection \<open>\<open>validateWaitlistBody\<close> (supabase/functions/waitlist.ts)\<close>

fun str_trim_or :: "json option \<Rightarrow> string option" where
  "str_trim_or (Some (JStr s)) = Some (trim s)"
| "str_trim_or v = None"

definition validateWaitlistBody :: "json \<Rightarrow> thrown + signup_body" where
  "validateWaitlistBody raw =
     (if falsy raw \<or> typeof raw \<noteq> ''object'' then Inl (ErrorObj ''Invalid_body'')
      else
        let fn = (case str_trim_or (getProp raw ''full_name'') of Some s \<Rightarrow> s | None \<Rightarrow> []);
            em = (case str_trim_or (getProp raw ''email'') of Some s \<Rightarrow> s | None \<Rightarrow> []);
            bn = str_trim_or (getProp raw ''brand_name'');
            rf = str_trim_or (getProp raw ''ref'')
        in if fn = [] then Inl (ErrorObj ''Full_name field is required.'')
           else if em = [] then Inl (ErrorObj ''Email field is required.'')
           else if length fn > 35 then Inl (ErrorObj ''Full_name exceeds 35 chars.'')
           else if length em > 50 then Inl (ErrorObj ''Email exceeds 50 chars.'')
           else if (case bn of Some b \<Rightarrow> b \<noteq> [] \<and> length b > 50 | None \<Rightarrow> False)
             then Inl (ErrorObj ''Brand_name exceeds 50 chars.'')
           else if \<not> EMAIL_REGEX_test em then Inl (ErrorObj ''Invalid_email_format'')
           else Inr \<lparr>body_full_name = fn, body_email = em, body_brand_name = bn, body_ref = rf\<rparr>)"

subsection \<open>\<open>validateBody\<close> (the join-waitlist handler in ref-dashboard.ts)\<close>

definition MAX_FULL_NAME_LENGTH :: nat where "MAX_FULL_NAME_LENGTH = 50"
definition MAX_EMAIL_LENGTH :: nat where "MAX_EMAIL_LENGTH = 200"
definition MAX_BRAND_NAME_LENGTH :: nat where "MAX_BRAND_NAME_LENGTH = 70"

text \<open>\<open>(raw as any).f?.trim()\<close>: \<open>undefined\<close> when the property is \<open>undefined\<close> or
  \<open>null\<close>, the trimmed string for a string, and a \<open>TypeError\<close> for every other value
  (a number, a boolean, an array or an object has no callable \<open>trim\<close>; the message is
  the engine's).\<close>

fun optTrim :: "string \<Rightarrow> json option \<Rightarrow> thrown + string option" where
  "optTrim f None = Inr None"
| "optTrim f (Some JNull) = Inr None"
| "optTrim f (Some (JStr s)) = Inr (Some (trim s))"
| "optTrim f (Some v) = Inl (ErrorObj (''raw.'' @ f @ ''?.trim is not a function''))"


definition strOrEmpty :: "string option \<Rightarrow> string" where
  "strOrEmpty v = (case v of None \<Rightarrow> [] | Some s \<Rightarrow> s)"

text \<open>\<open>!full_name\<close> holds for \<open>undefined\<close> and for the empty string, so the checks below read
  the trimmed value with \<open>undefined\<close> as the empty string.\<close>

definition validateBody :: "json \<Rightarrow> thrown + signup_body" where
  "validateBody raw =
     (if falsy raw \<or> typeof raw \<noteq> ''object'' \<or> isArray raw then Inl (ErrorObj ''invalid_body'')
      else
        (case optTrim ''full_name'' (getProp raw ''full_name'') of Inl x \<Rightarrow> Inl x | Inr fno \<Rightarrow>
        (case optTrim ''email'' (getProp raw ''email'') of Inl x \<Rightarrow> Inl x | Inr emo \<Rightarrow>
        (case optTrim ''brand_name'' (getProp raw ''brand_name'') of Inl x \<Rightarrow> Inl x | Inr bn \<Rightarrow>
        (case optTrim ''ref'' (getProp raw ''ref'') of Inl x \<Rightarrow> Inl x | Inr rf \<Rightarrow>
          (let fn = strOrEmpty fno; em = strOrEmpty emo
           in if fn = [] then Inl (ErrorObj ''full_name_required'')
              else if em = [] then Inl (ErrorObj ''email_required'')
              else if length fn > MAX_FULL_NAME_LENGTH then Inl (ErrorObj ''full_name_too_long'')
              else if length em > MAX_EMAIL_LENGTH then Inl (ErrorObj ''email_too_long'')
              else if (case bn of Some b \<Rightarrow> b \<noteq> [] \<and> length b > MAX_BRAND_NAME_LENGTH | None \<Rightarrow> False)
                then Inl (ErrorObj ''brand_name_too_long'')
              else if \<not> EMAIL_REGEX_test em then Inl (ErrorObj ''invalid_email_format'')
              else Inr \<lparr>body_full_name = fn, body_email = em, body_brand_name = bn, body_ref = rf\<rparr>))))))"

section \<open>Requests and responses\<close>

text \<open>A request: its method, the three headers the handlers read, and what
  \<open>await req.json()\<close> gives (the parsed body, or the error it throws).\<close>

record request =
  req_method :: string
  content_type :: "string option"
  x_forwarded_for :: "string option"
  x_real_ip :: "string option"
  req_json :: "thrown + json"

text \<open>A response: the status and, of the JSON body, the \<open>error\<close> and \<open>field\<close> members
  (\<open>None\<close> when the body has none). The \<open>message\<close> texts are left out.\<close>

record response =
  status :: nat
  error :: "string option"
  field :: "string option"

definition respond :: "nat \<Rightarrow> string option \<Rightarrow> response" where
  "respond st er = \<lparr>status = st, error = er, field = None\<rparr>"

section \<open>The external services\<close>

subsection \<open>The store\<close>

text \<open>
  The tables \<open>waitlist_signups\<close> and \<open>waitlist_rate_limits\<close> live in a managed
  relational store. The handlers see it through queries; the model keeps the rows of
  both tables and answers the queries from them. Timestamps are milliseconds. A request
  runs alone: between two of its queries the tables change only by its own writes (a
  row committed by a concurrent request shows as \<open>insert_fault\<close>, below).
\<close>

record WaitlistSignup =
  full_name :: string
  email :: string
  brand_name :: "string option"
  created_at :: int
  referral_code :: string
  referred_by :: "string option"
  referral_count :: "int option"

record rate_limit_row =
  rl_ip :: string
  rl_endpoint :: string
  rl_created_at :: int

record db =
  signups :: "WaitlistSignup list"
  rate_limits :: "rate_limit_row list"

record PostgrestError =
  pg_message :: string
  pg_code :: string

text \<open>The error of the store for a row that breaks a unique constraint (SQLSTATE 23505).\<close>

definition unique_violation :: "string \<Rightarrow> PostgrestError" where
  "unique_violation cname =
     \<lparr>pg_message = ''duplicate key value violates unique constraint '' @ [CHR 0x22] @ cname @ [CHR 0x22],
      pg_code = ''23505''\<rparr>"

subsection \<open>Link generation and email dispatch\<close>

record link_props =
  action_link :: "string option"

record link_data =
  properties :: "link_props option"

text \<open>What \<open>supabase.auth.admin.generateLink\<close> resolves to: \<open>{data, error}\<close>. The
  services are modelled by what their calls resolve to (and, for the email dispatch, by
  what it throws); a store or link call that throws instead of resolving is outside the
  model.\<close>

record link_response =
  link_data :: "link_data option"
  link_error :: bool

text \<open>A value caught from \<open>resend.emails.send\<close>, by the members the handlers read;
  \<open>e_is_Error\<close> says whether it is an instance of \<open>Error\<close>.\<close>

record provider_error =
  e_status :: "int option"
  e_name :: "string option"
  e_code :: "string option"
  e_message :: "string option"
  e_is_Error :: bool

definition as_thrown :: "provider_error \<Rightarrow> thrown" where
  "as_thrown pe = (if e_is_Error pe then ErrorObj (strOrEmpty (e_message pe)) else OtherObj)"

text \<open>
  What the call \<open>resend.emails.send\<close> does, with the client the sources pin
  (resend 3.2.0). Whatever the provider answers, the call resolves to
  \<open>{data, error}\<close>: \<open>error\<close> is \<open>null\<close> for an accepted email and the provider's
  error response (\<open>statusCode\<close>, \<open>name\<close>, \<open>message\<close>) for a refused one. The call
  throws only when the request itself is rejected: the runtime's \<open>TypeError\<close>, which has
  no \<open>status\<close> and no \<open>code\<close> and whose message names the request (the cause that
  follows in the message is left out).
\<close>

record ErrorResponse =
  statusCode :: int
  er_name :: string
  er_message :: string

datatype send_outcome = Resolves "ErrorResponse option" | Rejects

definition fetch_rejected :: provider_error where
  "fetch_rejected =
     \<lparr>e_status = None, e_name = Some ''TypeError'', e_code = None,
      e_message = Some ''error sending request for url (https://api.resend.com/emails)'',
      e_is_Error = True\<rparr>"

subsection \<open>The environment of one request\<close>

text \<open>
  Everything the outside world decides while one request runs: the clock, which store
  calls fail, what the store generates for a new row, the answer of the link service
  and what the email dispatch does.
  \<open>insert_fault\<close> is an insert error that does not come from the rows the model
  holds: a lost connection, or the unique violation raised by a row that a concurrent
  request committed after the existence check.
\<close>

record env =
  now :: int
  rl_select_error :: bool
  rl_insert_error :: bool
  existing_select_error :: bool
  insert_fault :: "PostgrestError option"
  gen_referral_code :: string
  gen_referral_count :: "int option"
  ref_select_error :: bool
  ref_update_error :: bool
  link_result :: link_response
  email_outcome :: send_outcome

subsection \<open>Queries\<close>

text \<open>\<open>.single()\<close>: the row when exactly one matches, an error otherwise.\<close>

fun single :: "'a list \<Rightarrow> 'a option \<times> bool" where
  "single [r] = (Some r, False)"
| "single rs = (None, True)"

definition count_rate_limits :: "db \<Rightarrow> string \<Rightarrow> string \<Rightarrow> int \<Rightarrow> nat" where
  "count_rate_limits d ip endpoint windowStart =
     length (filter (\<lambda>r. rl_ip r = ip \<and> rl_endpoint r = endpoint \<and> windowStart \<le> rl_created_at r)
       (rate_limits d))"

text \<open>\<open>select("*", {count: "exact", head: true}).eq(ip).eq(endpoint).gte(created_at)\<close>:
  \<open>{count, error}\<close>.\<close>

definition select_rate_limits :: "env \<Rightarrow> db \<Rightarrow> string \<Rightarrow> string \<Rightarrow> int \<Rightarrow> nat option \<times> bool" where
  "select_rate_limits e d ip endpoint windowStart =
     (if rl_select_error e then (None, True)
      else (Some (count_rate_limits d ip endpoint windowStart), False))"

definition insert_rate_limit :: "env \<Rightarrow> db \<Rightarrow> string \<Rightarrow> string \<Rightarrow> bool \<times> db" where
  "insert_rate_limit e d ip endpoint =
     (if rl_insert_error e then (True, d)
      else (False, d\<lparr>rate_limits := rate_limits d @
              [\<lparr>rl_ip = ip, rl_endpoint = endpoint, rl_created_at = now e\<rparr>]\<rparr>))"

definition select_by_email :: "env \<Rightarrow> db \<Rightarrow> string \<Rightarrow> WaitlistSignup option \<times> bool" where
  "select_by_email e d em =
     (if existing_select_error e then (None, True)
      else single (filter (\<lambda>r. email r = em) (signups d)))"

definition select_by_referral_code :: "env \<Rightarrow> db \<Rightarrow> string \<Rightarrow> WaitlistSignup option \<times> bool" where
  "select_by_referral_code e d rc =
     (if ref_select_error e then (None, True)
      else single (filter (\<lambda>r. referral_code r = rc) (signups d)))"

definition update_referral_count :: "env \<Rightarrow> db \<Rightarrow> string \<Rightarrow> int \<Rightarrow> bool \<times> db" where
  "update_referral_count e d rc n =
     (if ref_update_error e then (True, d)
      else (False, d\<lparr>signups :=
              map (\<lambda>r. if referral_code r = rc then r\<lparr>referral_count := Some n\<rparr> else r) (signups d)\<rparr>))"

text \<open>
  Modelled from the spec: the table definition of \<open>waitlist_signups\<close> (its constraints
  and column defaults) is not among the sources. By the data model \<open>email\<close> and
  \<open>referral_code\<close> are unique and the referral code is generated at creation; the
  store fills \<open>created_at\<close>, \<open>referral_code\<close> and \<open>referral_count\<close>.
  The query is
  \<open>insert({full_name, email, brand_name, referred_by}).select("referral_code").single()\<close>.
\<close>

definition new_row :: "env \<Rightarrow> signup_body \<Rightarrow> WaitlistSignup" where
  "new_row e b =
     \<lparr>full_name = body_full_name b, email = body_email b, brand_name = body_brand_name b,
      created_at = now e, referral_code = gen_referral_code e, referred_by = body_ref b,
      referral_count = gen_referral_count e\<rparr>"

definition insert_signup :: "env \<Rightarrow> db \<Rightarrow> signup_body \<Rightarrow> (WaitlistSignup option \<times> PostgrestError option) \<times> db" where
  "insert_signup e d b =
     (case insert_fault e of
        Some er \<Rightarrow> ((None, Some er), d)
      | None \<Rightarrow>
          if body_email b \<in> set (map email (signups d))
            then ((None, Some (unique_violation ''waitlist_signups_email_key'')), d)
          else if gen_referral_code e \<in> set (map referral_code (signups d))
            then ((None, Some (unique_violation ''waitlist_signups_referral_code_key'')), d)
          else ((Some (new_row e b), None), d\<lparr>signups := signups d @ [new_row e b]\<rparr>))"

section \<open>Rate limiter\<close>

definition WINDOW_MS :: int where "WINDOW_MS = 120000"
definition MAX_REQUESTS :: nat where "MAX_REQUESTS = 5"

text \<open>\<open>checkRateLimit(ip, endpoint)\<close> of waitlist.ts. The result is the verdict and the
  store after the call.\<close>

definition checkRateLimit :: "env \<Rightarrow> db \<Rightarrow> string \<Rightarrow> string \<Rightarrow> bool \<times> db" where
  "checkRateLimit e d ip endpoint =
     (let windowStart = now e - WINDOW_MS;
          (count, selectError) = select_rate_limits e d ip endpoint windowStart
      in if selectError then (True, d)
         else if (case count of None \<Rightarrow> 0 | Some n \<Rightarrow> n) \<ge> MAX_REQUESTS then (False, d)
         else (let (insertError, d') = insert_rate_limit e d ip endpoint in (True, d')))"

text \<open>\<open>checkRateLimit(ip)\<close> of the join-waitlist handler, with the constants of
  \<open>RATE_LIMIT\<close>.\<close>

definition RATE_LIMIT_WINDOW_MS :: int where "RATE_LIMIT_WINDOW_MS = 120000"
definition RATE_LIMIT_MAX_REQUESTS :: nat where "RATE_LIMIT_MAX_REQUESTS = 5"
definition RATE_LIMIT_ENDPOINT :: string where "RATE_LIMIT_ENDPOINT = ''join-waitlist''"

definition join_checkRateLimit :: "env \<Rightarrow> db \<Rightarrow> string \<Rightarrow> bool \<times> db" where
  "join_checkRateLimit e d ip =
     (let windowStart = now e - RATE_LIMIT_WINDOW_MS;
          (count, selectError) = select_rate_limits e d ip RATE_LIMIT_ENDPOINT windowStart
      in if selectError then (True, d)
         else if (case count of None \<Rightarrow> 0 | Some n \<Rightarrow> n) \<ge> RATE_LIMIT_MAX_REQUESTS then (False, d)
         else (let (insertError, d') = insert_rate_limit e d ip RATE_LIMIT_ENDPOINT in (True, d')))"

section \<open>The join-waitlist handler (the module after the dashboard in ref-dashboard.ts)\<close>

definition handleCors :: "request \<Rightarrow> response option" where
  "handleCors req =
     (if req_method req = ''OPTIONS'' then Some (respond 204 None)
      else if req_method req \<noteq> ''POST'' then Some (respond 405 (Some ''method_not_allowed''))
      else None)"

definition join_validateHeaders :: "request \<Rightarrow> thrown + unit" where
  "join_validateHeaders req =
     (case content_type req of
        None \<Rightarrow> Inl (ErrorObj ''invalid_content_type'')
      | Some ct \<Rightarrow>
          if \<not> str_includes (toLowerCase ct) ''application/json''
            then Inl (ErrorObj ''invalid_content_type'')
          else Inr ())"

text \<open>\<open>(referrer.referral_count ?? 0) + 1\<close> is an addition of numbers: the count as
  \<open>JSON.parse\<close> read it, plus one, rounded to a double.\<close>

definition handleReferralIncrement :: "env \<Rightarrow> db \<Rightarrow> string option \<Rightarrow> db" where
  "handleReferralIncrement e d refCode =
     (case refCode of
        None \<Rightarrow> d
      | Some rc \<Rightarrow>
          if rc = [] then d
          else
            (let (referrer, selectError) = select_by_referral_code e d rc
             in case referrer of
                  None \<Rightarrow> d
                | Some r \<Rightarrow>
                    if selectError then d
                    else (let (updateError, d') =
                                update_referral_count e d rc
                                  (js_add (case referral_count r of None \<Rightarrow> 0
                                           | Some n \<Rightarrow> number_of_int n) 1)
                          in d')))"

text \<open>\<open>await resend.emails.send(...)\<close>: the value it resolves to, or the value thrown.
  \<open>sendConfirmationEmail\<close> awaits it and returns nothing; no handler reads the
  resolved value.\<close>

definition resend_emails_send :: "env \<Rightarrow> provider_error + ErrorResponse option" where
  "resend_emails_send e =
     (case email_outcome e of Resolves er \<Rightarrow> Inr er | Rejects \<Rightarrow> Inl fetch_rejected)"

definition sendConfirmationEmail :: "env \<Rightarrow> provider_error + unit" where
  "sendConfirmationEmail e =
     (case resend_emails_send e of Inl pe \<Rightarrow> Inl pe | Inr er \<Rightarrow> Inr ())"

definition field_label :: "string \<Rightarrow> string \<Rightarrow> string" where
  "field_label msg other =
     (if str_includes msg ''full_name'' then ''Full Name''
      else if str_includes msg ''email'' then ''Email'' else other)"

definition handleError :: "thrown \<Rightarrow> response" where
  "handleError err =
     (case err of
        OtherObj \<Rightarrow> respond 500 (Some ''internal_server_error'')
      | ErrorObj m \<Rightarrow>
          (let msg = toLowerCase m
           in if msg = ''invalid_content_type'' then respond 415 (Some ''invalid_content_type'')
              else if str_includes msg ''required''
                then \<lparr>status = 400, error = Some ''missing_field'',
                      field = Some (toLowerCase (field_label msg ''Field''))\<rparr>
              else if str_includes msg ''too_long''
                then \<lparr>status = 400, error = Some ''field_too_long'',
                      field = Some (toLowerCase (field_label msg ''Brand Name''))\<rparr>
              else if msg = ''invalid_email_format'' then respond 422 (Some ''invalid_email'')
              else if m = ''magic_link_error'' then respond 503 (Some ''magic_link_error'')
              else if m = ''email_quota_exceeded'' then respond 501 (Some ''email_quota_exceeded'')
              else if m = ''email_send_failed'' then respond 502 (Some ''email_send_failed'')
              else respond 500 (Some ''internal_server_error'')))"

text \<open>\<open>!linkData?.properties?.action_link\<close>.\<close>

definition no_action_link :: "link_response \<Rightarrow> bool" where
  "no_action_link lr =
     (case link_data lr of
        None \<Rightarrow> True
      | Some ld \<Rightarrow>
          (case properties ld of
             None \<Rightarrow> True
           | Some ps \<Rightarrow> (case action_link ps of None \<Rightarrow> True | Some l \<Rightarrow> l = [])))"

text \<open>The branch \<open>if (existingProfile)\<close>: a fresh magic link and the dashboard email.\<close>

definition join_returning :: "env \<Rightarrow> thrown + response" where
  "join_returning e =
     (if no_action_link (link_result e) then Inl (ErrorObj ''Failed to generate magic link.'')
      else
        (case resend_emails_send e of
           Inl pe \<Rightarrow> Inl (as_thrown pe)
         | Inr u \<Rightarrow> Inr (respond 200 None)))"

text \<open>The \<open>catch (emailError)\<close> of the new-user path.\<close>

definition join_email_catch :: "provider_error \<Rightarrow> thrown" where
  "join_email_catch pe =
     (if e_status pe = Some 429
         \<or> (case e_message pe of Some m \<Rightarrow> str_includes m ''quota'' | None \<Rightarrow> False)
         \<or> e_code pe = Some ''daily_quota_exceeded''
      then ErrorObj ''email_quota_exceeded''
      else ErrorObj ''email_send_failed'')"

text \<open>The new-user path after the insert succeeded: link generation and the
  confirmation email.\<close>

definition join_notify :: "env \<Rightarrow> thrown + response" where
  "join_notify e =
     (if link_error (link_result e) \<or> no_action_link (link_result e)
        then Inl (ErrorObj ''magic_link_error'')
      else
        (case sendConfirmationEmail e of
           Inl pe \<Rightarrow> Inl (join_email_catch pe)
         | Inr u \<Rightarrow> Inr (respond 201 None)))"

text \<open>The new-user path: insert, referral increment, notification. An insert error that
  is not a duplicate is thrown as it is (\<open>throw insertError\<close>): a plain object, which
  the generic handler does not take for an \<open>Error\<close>.\<close>

definition join_new_user :: "env \<Rightarrow> db \<Rightarrow> signup_body \<Rightarrow> (thrown + response) \<times> db" where
  "join_new_user e d b =
     (let ((data, insertError), d1) = insert_signup e d b
      in case insertError of
           Some er \<Rightarrow>
             if str_includes (toLowerCase (pg_message er)) ''duplicate''
               then (Inr (respond 409 (Some ''duplicate_entry'')), d1)
             else (Inl OtherObj, d1)
         | None \<Rightarrow>
             (let d2 = handleReferralIncrement e d1 (body_ref b)
              in (join_notify e, d2)))"

text \<open>The database operations of the \<open>try\<close> block: the existence check, then one of the
  two paths.\<close>

definition join_signup :: "env \<Rightarrow> db \<Rightarrow> signup_body \<Rightarrow> (thrown + response) \<times> db" where
  "join_signup e d b =
     (let (existingProfile, selectError) = select_by_email e d (body_email b)
      in case existingProfile of
           Some p \<Rightarrow> (join_returning e, d)
         | None \<Rightarrow> join_new_user e d b)"

text \<open>The body of the \<open>try\<close> block.\<close>

definition join_try :: "env \<Rightarrow> db \<Rightarrow> request \<Rightarrow> (thrown + response) \<times> db" where
  "join_try e d req =
     (case join_validateHeaders req of
        Inl x \<Rightarrow> (Inl x, d)
      | Inr u \<Rightarrow>
          (case req_json req of
             Inl x \<Rightarrow> (Inl x, d)
           | Inr raw \<Rightarrow>
               (case validateBody raw of
                  Inl x \<Rightarrow> (Inl x, d)
                | Inr b \<Rightarrow> join_signup e d b)))"

definition client_ip :: "request \<Rightarrow> string" where
  "client_ip req =
     (case x_forwarded_for req of
        Some a \<Rightarrow> a
      | None \<Rightarrow> (case x_real_ip req of Some a \<Rightarrow> a | None \<Rightarrow> ''unknown''))"

definition join_serve :: "env \<Rightarrow> db \<Rightarrow> request \<Rightarrow> response \<times> db" where
  "join_serve e d req =
     (case handleCors req of
        Some r \<Rightarrow> (r, d)
      | None \<Rightarrow>
          (let (rateLimitOk, d1) = join_checkRateLimit e d (client_ip req)
           in if \<not> rateLimitOk then (respond 429 (Some ''rate_limit_exceeded''), d1)
              else
                (case join_try e d1 req of
                   (Inl err, d2) \<Rightarrow> (handleError err, d2)
                 | (Inr r, d2) \<Rightarrow> (r, d2))))"

section \<open>The earlier handler (supabase/functions/waitlist.ts)\<close>

definition validateCors :: "request \<Rightarrow> response option" where
  "validateCors req =
     (if req_method req = ''OPTIONS'' then Some (respond 204 None)
      else if req_method req \<noteq> ''POST'' then Some (respond 405 (Some ''method_not_allowed''))
      else None)"

definition validateHeaders :: "request \<Rightarrow> thrown + unit" where
  "validateHeaders req =
     (if req_method req \<noteq> ''POST'' then Inr ()
      else
        (case content_type req of
           None \<Rightarrow> Inl (ErrorObj ''invalid_content_type'')
         | Some ct \<Rightarrow>
             if \<not> startsWith (toLowerCase ct) ''application/json''
               then Inl (ErrorObj ''invalid_content_type'')
             else Inr ()))"

text \<open>Step 4e, inline in the handler: the increment of the referrer's count.\<close>

definition waitlist_referral :: "env \<Rightarrow> db \<Rightarrow> string option \<Rightarrow> db" where
  "waitlist_referral e d rf =
     (case rf of
        None \<Rightarrow> d
      | Some rc \<Rightarrow>
          if rc = [] then d
          else
            (let (refUser, refSelectError) = select_by_referral_code e d rc
             in case refUser of
                  None \<Rightarrow> d
                | Some r \<Rightarrow>
                    if refSelectError then d
                    else (let (refUpdateError, d') =
                                update_referral_count e d rc
                                  (js_add (case referral_count r of None \<Rightarrow> 0
                                           | Some n \<Rightarrow> number_of_int n) 1)
                          in d')))"

text \<open>The \<open>catch (error)\<close> around \<open>resend.emails.send\<close>.\<close>

definition waitlist_email_catch :: "provider_error \<Rightarrow> thrown" where
  "waitlist_email_catch pe =
     (if e_status pe = Some 429
         \<and> (e_name pe = Some ''daily_quota_exceeded''
            \<or> e_code pe = Some ''daily_quota_exceeded''
            \<or> (case e_message pe of Some m \<Rightarrow> str_includes m ''daily email quota'' | None \<Rightarrow> False))
      then ErrorObj ''email_quota_exceeded''
      else ErrorObj ''email_send_failed'')"

text \<open>Steps 4g to 4i. Reading \<open>linkData.properties.action_link\<close> throws a \<open>TypeError\<close>
  when \<open>properties\<close> is \<open>null\<close>.\<close>

definition waitlist_notify :: "env \<Rightarrow> thrown + response" where
  "waitlist_notify e =
     (if link_error (link_result e) then Inl (ErrorObj ''magic_link_error'')
      else
        (case link_data (link_result e) of
           None \<Rightarrow> Inl (ErrorObj ''magic_link_error'')
         | Some ld \<Rightarrow>
             (case properties ld of
                None \<Rightarrow> Inl (ErrorObj ''Cannot read properties of null (reading 'action_link')'')
              | Some ps \<Rightarrow>
                  (case resend_emails_send e of
                     Inl pe \<Rightarrow> Inl (waitlist_email_catch pe)
                   | Inr u \<Rightarrow> Inr (respond 201 None)))))"

text \<open>Steps 4d to 4i.\<close>

definition waitlist_signup :: "env \<Rightarrow> db \<Rightarrow> signup_body \<Rightarrow> (thrown + response) \<times> db" where
  "waitlist_signup e d b =
     (let ((data, insertError), d1) = insert_signup e d b
      in case insertError of
           Some er \<Rightarrow>
             if str_includes (toLowerCase (pg_message er)) ''duplicate''
               then (Inr (respond 409 (Some ''duplicate_entry'')), d1)
             else (Inr (respond 500 (Some ''db_error'')), d1)
         | None \<Rightarrow>
             (let d2 = waitlist_referral e d1 (body_ref b)
              in (waitlist_notify e, d2)))"

definition waitlist_try :: "env \<Rightarrow> db \<Rightarrow> request \<Rightarrow> (thrown + response) \<times> db" where
  "waitlist_try e d req =
     (case validateHeaders req of
        Inl x \<Rightarrow> (Inl x, d)
      | Inr u \<Rightarrow>
          (case req_json req of
             Inl x \<Rightarrow> (Inl x, d)
           | Inr rawBody \<Rightarrow>
               (case validateWaitlistBody rawBody of
                  Inl x \<Rightarrow> (Inl x, d)
                | Inr b \<Rightarrow> waitlist_signup e d b)))"

text \<open>The outer \<open>catch (error)\<close>.\<close>

definition waitlist_catch :: "thrown \<Rightarrow> response" where
  "waitlist_catch err =
     (case err of
        OtherObj \<Rightarrow> respond 500 (Some ''internal_server_error'')
      | ErrorObj m \<Rightarrow>
          if m = ''invalid_content_type'' then respond 415 (Some ''invalid_content_type'')
          else if startsWith m ''Full_'' \<or> startsWith m ''Email'' \<or> startsWith m ''Brand_''
            then respond 400 (Some ''invalid_request_body'')
          else if m = ''Invalid_email_format'' then respond 422 (Some ''invalid_email'')
          else if m = ''magic_link_error'' then respond 503 (Some ''magic_link_error'')
          else if m = ''email_quota_exceeded'' then respond 501 (Some ''email_quota_exceeded'')
          else if m = ''email_send_failed'' then respond 502 (Some ''email_send_failed'')
          else respond 500 (Some ''internal_server_error''))"

definition waitlist_serve :: "env \<Rightarrow> db \<Rightarrow> request \<Rightarrow> response \<times> db" where
  "waitlist_serve e d req =
     (case validateCors req of
        Some r \<Rightarrow> (r, d)
      | None \<Rightarrow>
          (let (allowed, d1) = checkRateLimit e d (client_ip req) ''join-waitlist''
           in if \<not> allowed then (respond 429 (Some ''rate_limit_exceeded''), d1)
              else
                (case waitlist_try e d1 req of
                   (Inl err, d2) \<Rightarrow> (waitlist_catch err, d2)
                 | (Inr r, d2) \<Rightarrow> (r, d2))))"

section \<open>The leaderboard handler (ref-leaderboard.ts)\<close>

text \<open>Modelled from the spec: the view \<open>waitlist_leaderboard\<close> is not among the sources. A
  row has the three selected columns; the referral count is an integer.\<close>

record leader =
  l_full_name :: string
  l_referral_code :: string
  l_referral_count :: int

record ranked = leader +
  rank :: nat

text \<open>
  \<open>.order("referral_count", {ascending: false}).limit(10)\<close>: the store sorts the rows by
  descending count and returns the first ten. Rows with equal counts come in the order
  the store holds them, which is the order of the list given here.
\<close>

definition order_desc_limit :: "leader list \<Rightarrow> leader list" where
  "order_desc_limit rows = take 10 (sort_key (\<lambda>r. - l_referral_count r) rows)"

datatype leaderboard_body = Rows "ranked list" | Failed | Plain

record leaderboard_response =
  lb_status :: nat
  lb_body :: leaderboard_body

text \<open>\<open>data.map((user, index) => ({...user, rank: index + 1}))\<close>.\<close>

definition with_rank :: "leader list \<Rightarrow> ranked list" where
  "with_rank data = map (\<lambda>(index, user). leader.extend user \<lparr>rank = index + 1\<rparr>) (enumerate 0 data)"

text \<open>The handler, given the method and the answer of the store to the query (the rows,
  or \<open>None\<close> for a query error).\<close>

definition leaderboard_serve :: "string \<Rightarrow> leader list option \<Rightarrow> leaderboard_response" where
  "leaderboard_serve m answer =
     (if m = ''OPTIONS'' then \<lparr>lb_status = 200, lb_body = Plain\<rparr>
      else if m \<noteq> ''GET'' then \<lparr>lb_status = 405, lb_body = Plain\<rparr>
      else
        (case answer of
           None \<Rightarrow> \<lparr>lb_status = 400, lb_body = Failed\<rparr>
         | Some data \<Rightarrow> \<lparr>lb_status = 200, lb_body = Rows (with_rank data)\<rparr>))"

section \<open>Runs and reachability\<close>

text \<open>Successive calls of the rate limiter for one client, each in its own environment.\<close>

fun rate_limit_run :: "db \<Rightarrow> string \<Rightarrow> string \<Rightarrow> env list \<Rightarrow> bool list \<times> db" where
  "rate_limit_run d ip ep [] = ([], d)"
| "rate_limit_run d ip ep (e # es) =
     (let (ok, d1) = checkRateLimit e d ip ep;
          (oks, d2) = rate_limit_run d1 ip ep es
      in (ok # oks, d2))"

text \<open>A request reaches the signup step of a handler with body \<open>b\<close> and store \<open>d1\<close>: the
  method is POST, the rate limiter lets it through, the content type is accepted and
  the body validates to \<open>b\<close>.\<close>

definition join_reaches :: "env \<Rightarrow> db \<Rightarrow> request \<Rightarrow> signup_body \<Rightarrow> db \<Rightarrow> bool" where
  "join_reaches e d req b d1 =
     (handleCors req = None
      \<and> join_checkRateLimit e d (client_ip req) = (True, d1)
      \<and> join_validateHeaders req = Inr ()
      \<and> (case req_json req of Inl x \<Rightarrow> False | Inr raw \<Rightarrow> validateBody raw = Inr b))"

definition waitlist_reaches :: "env \<Rightarrow> db \<Rightarrow> request \<Rightarrow> signup_body \<Rightarrow> db \<Rightarrow> bool" where
  "waitlist_reaches e d req b d1 =
     (validateCors req = None
      \<and> checkRateLimit e d (client_ip req) ''join-waitlist'' = (True, d1)
      \<and> validateHeaders req = Inr ()
      \<and> (case req_json req of Inl x \<Rightarrow> False | Inr raw \<Rightarrow> validateWaitlistBody raw = Inr b))"

section \<open>Sample requests, stores and environments\<close>

text \<open>An environment at time \<open>t\<close> in which nothing fails; a recorded request of the sample
  client; a POST request of that client with a JSON body.\<close>

definition calm :: "int \<Rightarrow> env" where
  "calm t =
     \<lparr>now = t, rl_select_error = False, rl_insert_error = False, existing_select_error = False,
      insert_fault = None, gen_referral_code = ''NEW00001'', gen_referral_count = Some 0,
      ref_select_error = False, ref_update_error = False,
      link_result =
        \<lparr>link_data = Some \<lparr>properties = Some \<lparr>action_link = Some ''https://auth.example/verify''\<rparr>\<rparr>,
         link_error = False\<rparr>,
      email_outcome = Resolves None\<rparr>"

definition hit :: "int \<Rightarrow> rate_limit_row" where
  "hit t = \<lparr>rl_ip = ''203.0.113.7'', rl_endpoint = ''join-waitlist'', rl_created_at = t\<rparr>"

definition post :: "json \<Rightarrow> request" where
  "post raw =
     \<lparr>req_method = ''POST'', content_type = Some ''application/json'',
      x_forwarded_for = Some ''203.0.113.7'', x_real_ip = None, req_json = Inr raw\<rparr>"

text \<open>Stores: empty, with five recent requests of the client, with one signup.\<close>

definition empty_db :: db where
  "empty_db = \<lparr>signups = [], rate_limits = []\<rparr>"

definition busy_db :: db where
  "busy_db = \<lparr>signups = [], rate_limits = [hit 10000, hit 20000, hit 30000, hit 40000, hit 50000]\<rparr>"

definition ada_row :: WaitlistSignup where
  "ada_row =
     \<lparr>full_name = ''Ada Lovelace'', email = ''ada@example.com'', brand_name = None,
      created_at = 1000, referral_code = ''ADA00001'', referred_by = None,
      referral_count = Some 2\<rparr>"

definition ada_at_limit_db :: db where
  "ada_at_limit_db =
     \<lparr>signups = [ada_row\<lparr>referral_count := Some 9007199254740992\<rparr>], rate_limits = []\<rparr>"

definition ada_db :: db where
  "ada_db = \<lparr>signups = [ada_row], rate_limits = []\<rparr>"

text \<open>Bodies, raw and validated, and the row the store makes of the second one.\<close>

definition ada_body :: json where
  "ada_body = JObj [(''full_name'', JStr ''Ada Lovelace''), (''email'', JStr ''ada@example.com'')]"

definition ada_signup :: signup_body where
  "ada_signup = \<lparr>body_full_name = ''Ada Lovelace'', body_email = ''ada@example.com'',
                 body_brand_name = None, body_ref = None\<rparr>"

definition grace_body :: json where
  "grace_body =
     JObj [(''full_name'', JStr ''Grace Hopper''), (''email'', JStr ''grace@example.com''),
           (''ref'', JStr '' ADA00001 '')]"

definition grace_signup :: signup_body where
  "grace_signup = \<lparr>body_full_name = ''Grace Hopper'', body_email = ''grace@example.com'',
                   body_brand_name = None, body_ref = Some ''ADA00001''\<rparr>"

definition grace_row :: WaitlistSignup where
  "grace_row =
     \<lparr>full_name = ''Grace Hopper'', email = ''grace@example.com'', brand_name = None,
      created_at = 5000, referral_code = ''NEW00001'', referred_by = Some ''ADA00001'',
      referral_count = Some 0\<rparr>"






definition numeric_email_body :: json where
  "numeric_email_body = JObj [(''full_name'', JStr ''Ada Lovelace''), (''email'', JNum 5)]"


text \<open>An answer of the link service and an error response of the email provider.\<close>

definition link_down :: link_response where
  "link_down = \<lparr>link_data = None, link_error = True\<rparr>"

definition quota_refusal :: ErrorResponse where
  "quota_refusal =
     \<lparr>statusCode = 429, er_name = ''daily_quota_exceeded'',
      er_message = ''You have reached your daily email quota''\<rparr>"

text \<open>Rows of the leaderboard view.\<close>

definition sample_view :: "leader list" where
  "sample_view =
     [\<lparr>l_full_name = ''Ada'', l_referral_code = ''ADA00001'', l_referral_count = 2\<rparr>,
      \<lparr>l_full_name = ''Grace'', l_referral_code = ''GRA00001'', l_referral_count = 7\<rparr>,
      \<lparr>l_full_name = ''Edsger'', l_referral_code = ''EDS00001'', l_referral_count = 2\<rparr>]"

section \<open>Rate limiter: threshold, window and fail-open\<close>

lemma count_append:
  "count_rate_limits (d\<lparr>rate_limits := rate_limits d @ [\<lparr>rl_ip = ip, rl_endpoint = ep, rl_created_at = t\<rparr>]\<rparr>) ip ep w
     = count_rate_limits d ip ep w + (if w \<le> t then 1 else 0)"
  by (simp add: count_rate_limits_def)

lemma filter_length_mono: "(\<And>x. P x \<Longrightarrow> Q x) \<Longrightarrow> length (filter P xs) \<le> length (filter Q xs)"
  by (induction xs) auto

lemma count_mono: "w \<le> w' \<Longrightarrow> count_rate_limits d ip ep w' \<le> count_rate_limits d ip ep w"
  unfolding count_rate_limits_def by (rule filter_length_mono) auto

lemma checkRateLimit_deny:
  "\<not> rl_select_error e \<Longrightarrow> MAX_REQUESTS \<le> count_rate_limits d ip ep (now e - WINDOW_MS)
     \<Longrightarrow> checkRateLimit e d ip ep = (False, d)"
  by (simp add: checkRateLimit_def select_rate_limits_def)

lemma checkRateLimit_allow:
  "\<not> rl_select_error e \<Longrightarrow> count_rate_limits d ip ep (now e - WINDOW_MS) < MAX_REQUESTS
     \<Longrightarrow> checkRateLimit e d ip ep = (True, snd (insert_rate_limit e d ip ep))"
  by (simp add: checkRateLimit_def select_rate_limits_def split: prod.splits)

lemma checkRateLimit_fail_open:
  "rl_select_error e \<Longrightarrow> checkRateLimit e d ip ep = (True, d)"
  by (simp add: checkRateLimit_def select_rate_limits_def)

lemma join_checkRateLimit_eq:
  "join_checkRateLimit e d ip = checkRateLimit e d ip RATE_LIMIT_ENDPOINT"
  unfolding join_checkRateLimit_def checkRateLimit_def RATE_LIMIT_WINDOW_MS_def WINDOW_MS_def
      RATE_LIMIT_MAX_REQUESTS_def MAX_REQUESTS_def by (rule refl)

lemma run_general:
  assumes "\<forall>e\<in>set es. \<not> rl_select_error e \<and> \<not> rl_insert_error e \<and> start \<le> now e \<and> now e \<le> start + WINDOW_MS"
    and "\<forall>w. start - WINDOW_MS \<le> w \<and> w \<le> start \<longrightarrow> count_rate_limits d ip ep w = k"
  shows "fst (rate_limit_run d ip ep es)
           = replicate (min (MAX_REQUESTS - k) (length es)) True @ replicate (length es - (MAX_REQUESTS - k)) False"
  using assms
proof (induction es arbitrary: d k)
  case Nil
  then show ?case by simp
next
  case (Cons e es)
  have e: "\<not> rl_select_error e" "\<not> rl_insert_error e" "start \<le> now e" "now e \<le> start + WINDOW_MS"
    using Cons.prems(1) by auto
  have rest: "\<forall>e\<in>set es. \<not> rl_select_error e \<and> \<not> rl_insert_error e \<and> start \<le> now e \<and> now e \<le> start + WINDOW_MS"
    using Cons.prems(1) by auto
  have cnt: "count_rate_limits d ip ep (now e - WINDOW_MS) = k"
    using Cons.prems(2) e by auto
  show ?case
  proof (cases "MAX_REQUESTS \<le> k")
    case True
    then have step: "checkRateLimit e d ip ep = (False, d)"
      using checkRateLimit_deny e cnt by simp
    have "fst (rate_limit_run d ip ep es)
           = replicate (min (MAX_REQUESTS - k) (length es)) True @ replicate (length es - (MAX_REQUESTS - k)) False"
      using Cons.IH [OF rest Cons.prems(2)] .
    then show ?thesis using True step by (cases "rate_limit_run d ip ep es") simp
  next
    case False
    let ?d' = "d\<lparr>rate_limits := rate_limits d @ [\<lparr>rl_ip = ip, rl_endpoint = ep, rl_created_at = now e\<rparr>]\<rparr>"
    have step: "checkRateLimit e d ip ep = (True, ?d')"
      using checkRateLimit_allow [of e d ip ep] e cnt False by (simp add: insert_rate_limit_def)
    have inv: "\<forall>w. start - WINDOW_MS \<le> w \<and> w \<le> start \<longrightarrow> count_rate_limits ?d' ip ep w = Suc k"
      using Cons.prems(2) e by (simp add: count_append)
    have "fst (rate_limit_run ?d' ip ep es)
           = replicate (min (MAX_REQUESTS - Suc k) (length es)) True @ replicate (length es - (MAX_REQUESTS - Suc k)) False"
      using Cons.IH [OF rest inv] .
    moreover have "MAX_REQUESTS - k = Suc (MAX_REQUESTS - Suc k)" using False by simp
    ultimately show ?thesis using step by (cases "rate_limit_run ?d' ip ep es") simp
  qed
qed



lemma checkRateLimit_denied_db: "\<not> fst (checkRateLimit e d ip ep) \<Longrightarrow> snd (checkRateLimit e d ip ep) = d"
  by (simp add: checkRateLimit_def split: prod.splits if_splits)

lemma count_zero_later:
  assumes "count_rate_limits d ip ep w0 = 0" and "w0 \<le> w"
  shows "count_rate_limits d ip ep w = 0"
  using count_mono [OF assms(2), of d ip ep] assms(1) by simp

text \<open>
  C3. For a fixed address and endpoint: with five or more records in the trailing
  120 seconds the limiter denies and leaves the store as it is, and both handlers answer
  429; with fewer it allows, and the record of the request is stored when the store
  accepts the insert; when the counting query fails it allows. The limiter of the
  join-waitlist handler is the same function at the endpoint \<open>join-waitlist\<close>. Of six
  requests within one window, with no record of the client before and no store failure,
  the first five are allowed and the sixth is denied.
\<close>

theorem rate_limit_window:
  "(\<not> rl_select_error e \<and> 5 \<le> count_rate_limits d ip ep (now e - 120000)
      \<longrightarrow> checkRateLimit e d ip ep = (False, d))
   \<and> (\<not> rl_select_error e \<and> count_rate_limits d ip ep (now e - 120000) < 5
      \<longrightarrow> fst (checkRateLimit e d ip ep)
          \<and> (\<not> rl_insert_error e \<longrightarrow>
                snd (checkRateLimit e d ip ep)
                  = d\<lparr>rate_limits := rate_limits d @ [\<lparr>rl_ip = ip, rl_endpoint = ep, rl_created_at = now e\<rparr>]\<rparr>))
   \<and> (rl_select_error e \<longrightarrow> checkRateLimit e d ip ep = (True, d))
   \<and> join_checkRateLimit e d ip = checkRateLimit e d ip ''join-waitlist''
   \<and> (req_method req = ''POST'' \<and> \<not> fst (checkRateLimit e d (client_ip req) ''join-waitlist'')
      \<longrightarrow> waitlist_serve e d req = (respond 429 (Some ''rate_limit_exceeded''), d)
          \<and> join_serve e d req = (respond 429 (Some ''rate_limit_exceeded''), d))
   \<and> ((\<forall>x\<in>set es. \<not> rl_select_error x \<and> \<not> rl_insert_error x \<and> start \<le> now x \<and> now x \<le> start + 120000)
        \<and> length es = 6 \<and> count_rate_limits d ip ep (start - 120000) = 0
      \<longrightarrow> fst (rate_limit_run d ip ep es) = [True, True, True, True, True, False])"
proof -
  have deny: "\<not> rl_select_error e \<and> 5 \<le> count_rate_limits d ip ep (now e - 120000)
      \<longrightarrow> checkRateLimit e d ip ep = (False, d)"
    using checkRateLimit_deny [of e d ip ep] by (simp add: MAX_REQUESTS_def WINDOW_MS_def)
  have allow: "\<not> rl_select_error e \<and> count_rate_limits d ip ep (now e - 120000) < 5
      \<longrightarrow> fst (checkRateLimit e d ip ep)
          \<and> (\<not> rl_insert_error e \<longrightarrow>
                snd (checkRateLimit e d ip ep)
                  = d\<lparr>rate_limits := rate_limits d @ [\<lparr>rl_ip = ip, rl_endpoint = ep, rl_created_at = now e\<rparr>]\<rparr>)"
    using checkRateLimit_allow [of e d ip ep]
    by (simp add: MAX_REQUESTS_def WINDOW_MS_def insert_rate_limit_def)
  have fail_open: "rl_select_error e \<longrightarrow> checkRateLimit e d ip ep = (True, d)"
    by (simp add: checkRateLimit_fail_open)
  have same: "join_checkRateLimit e d ip = checkRateLimit e d ip ''join-waitlist''"
    by (simp add: join_checkRateLimit_eq RATE_LIMIT_ENDPOINT_def)
  have handlers: "req_method req = ''POST'' \<and> \<not> fst (checkRateLimit e d (client_ip req) ''join-waitlist'')
      \<longrightarrow> waitlist_serve e d req = (respond 429 (Some ''rate_limit_exceeded''), d)
          \<and> join_serve e d req = (respond 429 (Some ''rate_limit_exceeded''), d)"
  proof (intro impI, elim conjE)
    assume m: "req_method req = ''POST''"
      and no: "\<not> fst (checkRateLimit e d (client_ip req) ''join-waitlist'')"
    have r: "checkRateLimit e d (client_ip req) ''join-waitlist'' = (False, d)"
      using no checkRateLimit_denied_db [OF no] by (simp add: prod_eq_iff)
    have "waitlist_serve e d req = (respond 429 (Some ''rate_limit_exceeded''), d)"
      using m r by (simp add: waitlist_serve_def validateCors_def)
    moreover have "join_serve e d req = (respond 429 (Some ''rate_limit_exceeded''), d)"
      using m r unfolding join_serve_def handleCors_def
      by (simp add: join_checkRateLimit_eq RATE_LIMIT_ENDPOINT_def)
    ultimately show "waitlist_serve e d req = (respond 429 (Some ''rate_limit_exceeded''), d)
          \<and> join_serve e d req = (respond 429 (Some ''rate_limit_exceeded''), d)" by simp
  qed
  have sixth: "(\<forall>x\<in>set es. \<not> rl_select_error x \<and> \<not> rl_insert_error x \<and> start \<le> now x \<and> now x \<le> start + 120000)
        \<and> length es = 6 \<and> count_rate_limits d ip ep (start - 120000) = 0
      \<longrightarrow> fst (rate_limit_run d ip ep es) = [True, True, True, True, True, False]"
  proof (intro impI, elim conjE)
    assume a: "\<forall>x\<in>set es. \<not> rl_select_error x \<and> \<not> rl_insert_error x \<and> start \<le> now x \<and> now x \<le> start + 120000"
      and l: "length es = 6" and z: "count_rate_limits d ip ep (start - 120000) = 0"
    have a': "\<forall>x\<in>set es. \<not> rl_select_error x \<and> \<not> rl_insert_error x \<and> start \<le> now x \<and> now x \<le> start + WINDOW_MS"
      using a by (simp add: WINDOW_MS_def)
    have z': "\<forall>w. start - WINDOW_MS \<le> w \<and> w \<le> start \<longrightarrow> count_rate_limits d ip ep w = 0"
      using count_zero_later [OF z] by (simp add: WINDOW_MS_def)
    have "fst (rate_limit_run d ip ep es)
           = replicate (min (MAX_REQUESTS - 0) (length es)) True @ replicate (length es - (MAX_REQUESTS - 0)) False"
      by (rule run_general [OF a' z'])
    then show "fst (rate_limit_run d ip ep es) = [True, True, True, True, True, False]"
      using l by (simp add: MAX_REQUESTS_def numeral_eq_Suc)
  qed
  show ?thesis using deny allow fail_open same handlers sixth by blast
qed


theorem rate_limit_window_witness:
  "count_rate_limits busy_db ''203.0.113.7'' ''join-waitlist'' (130000 - 120000) = 5
   \<and> checkRateLimit (calm 130000) busy_db ''203.0.113.7'' ''join-waitlist'' = (False, busy_db)
   \<and> waitlist_serve (calm 130000) busy_db (post ada_body) = (respond 429 (Some ''rate_limit_exceeded''), busy_db)
   \<and> join_serve (calm 130000) busy_db (post ada_body) = (respond 429 (Some ''rate_limit_exceeded''), busy_db)
   \<and> checkRateLimit (calm 130001) busy_db ''203.0.113.7'' ''join-waitlist''
        = (True, busy_db\<lparr>rate_limits := rate_limits busy_db @ [hit 130001]\<rparr>)
   \<and> checkRateLimit ((calm 130000)\<lparr>rl_select_error := True\<rparr>) busy_db ''203.0.113.7'' ''join-waitlist''
        = (True, busy_db)
   \<and> fst (rate_limit_run empty_db ''203.0.113.7'' ''join-waitlist''
             [calm 0, calm 1000, calm 2000, calm 3000, calm 4000, calm 120000])
        = [True, True, True, True, True, False]"
  using
    rate_limit_window [where e = "calm 130000" and d = busy_db and ip = "''203.0.113.7''"
      and ep = "''join-waitlist''" and req = "post ada_body" and start = 0
      and es = "[calm 0, calm 1000, calm 2000, calm 3000, calm 4000, calm 120000]"]
    rate_limit_window [where e = "calm 130001" and d = busy_db and ip = "''203.0.113.7''"
      and ep = "''join-waitlist''" and req = "post ada_body" and start = 0 and es = "[]"]
    rate_limit_window [where e = "(calm 130000)\<lparr>rl_select_error := True\<rparr>" and d = busy_db
      and ip = "''203.0.113.7''" and ep = "''join-waitlist''" and req = "post ada_body" and start = 0 and es = "[]"]
    rate_limit_window [where e = "calm 0" and d = empty_db and ip = "''203.0.113.7''"
      and ep = "''join-waitlist''" and req = "post ada_body" and start = 0
      and es = "[calm 0, calm 1000, calm 2000, calm 3000, calm 4000, calm 120000]"]
  by (simp add: calm_def hit_def busy_db_def empty_db_def post_def client_ip_def
      count_rate_limits_def prod_eq_iff)

section \<open>Reaching the signup step\<close>

lemma join_serve_reaches:
  "join_reaches e d req b d1 \<Longrightarrow>
     join_serve e d req =
       (case join_signup e d1 b of (Inl err, d2) \<Rightarrow> (handleError err, d2) | (Inr r, d2) \<Rightarrow> (r, d2))"
  by (auto simp: join_reaches_def join_serve_def join_try_def split: sum.splits)

lemma waitlist_serve_reaches:
  "waitlist_reaches e d req b d1 \<Longrightarrow>
     waitlist_serve e d req =
       (case waitlist_signup e d1 b of (Inl err, d2) \<Rightarrow> (waitlist_catch err, d2) | (Inr r, d2) \<Rightarrow> (r, d2))"
  by (auto simp: waitlist_reaches_def waitlist_serve_def waitlist_try_def split: sum.splits)

lemma validate_ada: "validateBody ada_body = Inr ada_signup" "validateWaitlistBody ada_body = Inr ada_signup"
  by (simp_all add: validateBody_def validateWaitlistBody_def ada_body_def ada_signup_def trim_def trimStart_def
      isSpace_def notSpaceAt_def strOrEmpty_def MAX_FULL_NAME_LENGTH_def MAX_EMAIL_LENGTH_def)


lemma validate_grace:
  "validateBody grace_body = Inr grace_signup" "validateWaitlistBody grace_body = Inr grace_signup"
  by (simp_all add: validateBody_def validateWaitlistBody_def grace_body_def grace_signup_def trim_def
      trimStart_def isSpace_def notSpaceAt_def strOrEmpty_def MAX_FULL_NAME_LENGTH_def MAX_EMAIL_LENGTH_def)

section \<open>Unique-constraint violations\<close>

lemma str_includes_prefix: "prefix sub s \<Longrightarrow> str_includes s sub"
  by (cases s) auto

lemma str_includes_append: "str_includes (p @ sub @ s) sub"
  by (induction p) (simp_all add: str_includes_prefix)

lemma toLowerCase_append: "toLowerCase (a @ b) = toLowerCase a @ toLowerCase b"
  by (simp add: toLowerCase_def)

lemma unique_violation_duplicate:
  "str_includes (toLowerCase (pg_message (unique_violation c))) ''duplicate''"
proof -
  have "toLowerCase (pg_message (unique_violation c))
          = [] @ ''duplicate'' @ ('' key value violates unique constraint '' @ toLowerCase ([CHR 0x22] @ c @ [CHR 0x22]))"
    by (simp add: unique_violation_def toLowerCase_def lowerChar_def)
  then show ?thesis by (simp only: str_includes_append)
qed

lemma insert_signup_error_db:
  "fst (insert_signup e d b) = (None, Some er) \<Longrightarrow> snd (insert_signup e d b) = d"
  by (auto simp: insert_signup_def split: option.splits if_splits)

lemma insert_signup_existing_email:
  "insert_fault e = None \<Longrightarrow> body_email b \<in> set (map email (signups d)) \<Longrightarrow>
     insert_signup e d b = ((None, Some (unique_violation ''waitlist_signups_email_key'')), d)"
  by (simp add: insert_signup_def)

lemma join_new_user_duplicate:
  assumes "fst (insert_signup e d b) = (None, Some er)"
    and "str_includes (toLowerCase (pg_message er)) ''duplicate''"
  shows "join_new_user e d b = (Inr (respond 409 (Some ''duplicate_entry'')), d)"
proof -
  have "insert_signup e d b = ((None, Some er), d)"
    using assms(1) insert_signup_error_db [OF assms(1)] by (simp add: prod_eq_iff)
  then show ?thesis using assms(2) by (simp add: join_new_user_def)
qed

lemma waitlist_signup_duplicate:
  assumes "fst (insert_signup e d b) = (None, Some er)"
    and "str_includes (toLowerCase (pg_message er)) ''duplicate''"
  shows "waitlist_signup e d b = (Inr (respond 409 (Some ''duplicate_entry'')), d)"
proof -
  have "insert_signup e d b = ((None, Some er), d)"
    using assms(1) insert_signup_error_db [OF assms(1)] by (simp add: prod_eq_iff)
  then show ?thesis using assms(2) by (simp add: waitlist_signup_def)
qed

text \<open>
  C5. An insert that the store rejects for a duplicate email (which is what it answers
  when the email is already in the table) is answered by both handlers with 409 and the
  error \<open>duplicate_entry\<close>, whatever the name of the constraint; the store is left as
  the rate limiter left it.
\<close>

theorem unique_violation_conflict:
  "(insert_fault e = None \<and> body_email b \<in> set (map email (signups d1))
      \<longrightarrow> fst (insert_signup e d1 b) = (None, Some (unique_violation ''waitlist_signups_email_key'')))
   \<and> (waitlist_reaches e d req b d1 \<and> fst (insert_signup e d1 b) = (None, Some (unique_violation c))
      \<longrightarrow> waitlist_serve e d req = (respond 409 (Some ''duplicate_entry''), d1))
   \<and> (join_reaches e d req b d1 \<and> fst (select_by_email e d1 (body_email b)) = None
        \<and> fst (insert_signup e d1 b) = (None, Some (unique_violation c))
      \<longrightarrow> join_serve e d req = (respond 409 (Some ''duplicate_entry''), d1))"
proof (intro conjI impI)
  assume "insert_fault e = None \<and> body_email b \<in> set (map email (signups d1))"
  then show "fst (insert_signup e d1 b) = (None, Some (unique_violation ''waitlist_signups_email_key''))"
    by (simp add: insert_signup_existing_email)
next
  assume a: "waitlist_reaches e d req b d1 \<and> fst (insert_signup e d1 b) = (None, Some (unique_violation c))"
  then have "waitlist_signup e d1 b = (Inr (respond 409 (Some ''duplicate_entry'')), d1)"
    using waitlist_signup_duplicate unique_violation_duplicate by blast
  then show "waitlist_serve e d req = (respond 409 (Some ''duplicate_entry''), d1)"
    using a waitlist_serve_reaches [of e d req b d1] by simp
next
  assume a: "join_reaches e d req b d1 \<and> fst (select_by_email e d1 (body_email b)) = None
        \<and> fst (insert_signup e d1 b) = (None, Some (unique_violation c))"
  then have "join_new_user e d1 b = (Inr (respond 409 (Some ''duplicate_entry'')), d1)"
    using join_new_user_duplicate unique_violation_duplicate by blast
  then have "join_signup e d1 b = (Inr (respond 409 (Some ''duplicate_entry'')), d1)"
    using a by (cases "select_by_email e d1 (body_email b)") (simp add: join_signup_def)
  then show "join_serve e d req = (respond 409 (Some ''duplicate_entry''), d1)"
    using a join_serve_reaches [of e d req b d1] by simp
qed

theorem unique_violation_conflict_witness:
  "body_email ada_signup \<in> set (map email (signups ada_db))
   \<and> waitlist_reaches (calm 5000) ada_db (post ada_body) ada_signup (ada_db\<lparr>rate_limits := [hit 5000]\<rparr>)
   \<and> waitlist_serve (calm 5000) ada_db (post ada_body)
        = (respond 409 (Some ''duplicate_entry''), ada_db\<lparr>rate_limits := [hit 5000]\<rparr>)
   \<and> join_reaches ((calm 5000)\<lparr>insert_fault := Some (unique_violation ''waitlist_signups_email_key'')\<rparr>)
        empty_db (post ada_body) ada_signup (empty_db\<lparr>rate_limits := [hit 5000]\<rparr>)
   \<and> join_serve ((calm 5000)\<lparr>insert_fault := Some (unique_violation ''waitlist_signups_email_key'')\<rparr>)
        empty_db (post ada_body)
        = (respond 409 (Some ''duplicate_entry''), empty_db\<lparr>rate_limits := [hit 5000]\<rparr>)"
  using
    unique_violation_conflict [where e = "calm 5000" and d = ada_db and req = "post ada_body"
      and b = ada_signup and ?d1.0 = "ada_db\<lparr>rate_limits := [hit 5000]\<rparr>"
      and c = "''waitlist_signups_email_key''"]
    unique_violation_conflict [where
      e = "(calm 5000)\<lparr>insert_fault := Some (unique_violation ''waitlist_signups_email_key'')\<rparr>"
      and d = empty_db and req = "post ada_body"
      and b = ada_signup and ?d1.0 = "empty_db\<lparr>rate_limits := [hit 5000]\<rparr>"
      and c = "''waitlist_signups_email_key''"]
  by (simp add: validate_ada join_reaches_def waitlist_reaches_def handleCors_def validateCors_def
      post_def client_ip_def calm_def hit_def ada_db_def ada_row_def empty_db_def ada_signup_def
      join_checkRateLimit_def checkRateLimit_def select_rate_limits_def count_rate_limits_def
      insert_rate_limit_def RATE_LIMIT_ENDPOINT_def RATE_LIMIT_MAX_REQUESTS_def MAX_REQUESTS_def
      join_validateHeaders_def validateHeaders_def startsWith_def toLowerCase_def lowerChar_def
      insert_signup_def select_by_email_def)

section \<open>After the insert: notification failures\<close>

lemma checkRateLimit_signups: "signups (snd (checkRateLimit e d ip ep)) = signups d"
  by (simp add: checkRateLimit_def insert_rate_limit_def split: prod.splits if_splits)

lemma join_reaches_signups: "join_reaches e d req b d1 \<Longrightarrow> signups d1 = signups d"
  using checkRateLimit_signups [of e d "client_ip req" RATE_LIMIT_ENDPOINT]
  by (simp add: join_reaches_def join_checkRateLimit_eq)

lemma waitlist_reaches_signups: "waitlist_reaches e d req b d1 \<Longrightarrow> signups d1 = signups d"
  using checkRateLimit_signups [of e d "client_ip req" "''join-waitlist''"]
  by (simp add: waitlist_reaches_def)

lemma insert_signup_ok:
  assumes "insert_signup e d b = ((Some row, None), d2)"
  shows "row = new_row e b" and "d2 = d\<lparr>signups := signups d @ [new_row e b]\<rparr>"
    and "body_email b \<notin> set (map email (signups d))"
    and "gen_referral_code e \<notin> set (map referral_code (signups d))"
    and "insert_fault e = None"
  using assms by (auto simp: insert_signup_def split: option.splits if_splits)

lemma select_by_email_absent:
  "em \<notin> set (map email (signups d)) \<Longrightarrow> fst (select_by_email e d em) = None"
proof -
  assume "em \<notin> set (map email (signups d))"
  then have "filter (\<lambda>r. email r = em) (signups d) = []"
    by (auto simp: filter_empty_conv)
  then show ?thesis by (simp add: select_by_email_def)
qed

lemma waitlist_referral_eq: "waitlist_referral e d rf = handleReferralIncrement e d rf"
  unfolding waitlist_referral_def handleReferralIncrement_def by (rule refl)

lemma update_referral_count_emails:
  "map email (signups (snd (update_referral_count e d rc n))) = map email (signups d)"
  by (simp add: update_referral_count_def comp_def)

lemma handleReferralIncrement_unfold:
  "handleReferralIncrement e d rf =
     (case rf of
        None \<Rightarrow> d
      | Some rc \<Rightarrow>
          if rc = [] then d
          else
            (case fst (select_by_referral_code e d rc) of
               None \<Rightarrow> d
             | Some r \<Rightarrow>
                 if snd (select_by_referral_code e d rc) then d
                 else snd (update_referral_count e d rc
                            (js_add (case referral_count r of None \<Rightarrow> 0
                                     | Some n \<Rightarrow> number_of_int n) 1))))"
  by (simp add: handleReferralIncrement_def case_prod_beta split: option.splits)

lemma handleReferralIncrement_emails:
  "map email (signups (handleReferralIncrement e d rf)) = map email (signups d)"
  by (simp add: handleReferralIncrement_unfold update_referral_count_emails split: option.splits)

lemma handleReferralIncrement_rate_limits:
  "rate_limits (handleReferralIncrement e d rf) = rate_limits d"
  by (simp add: handleReferralIncrement_unfold update_referral_count_def split: option.splits)

lemma join_signup_inserted:
  assumes "insert_signup e d b = ((Some row, None), d2)"
  shows "join_signup e d b = (join_notify e, handleReferralIncrement e d2 (body_ref b))"
proof -
  have "fst (select_by_email e d (body_email b)) = None"
    using insert_signup_ok(3) [OF assms] by (rule select_by_email_absent)
  then have "join_signup e d b = join_new_user e d b"
    by (cases "select_by_email e d (body_email b)") (simp add: join_signup_def)
  then show ?thesis using assms by (simp add: join_new_user_def)
qed

lemma waitlist_signup_inserted:
  assumes "insert_signup e d b = ((Some row, None), d2)"
  shows "waitlist_signup e d b = (waitlist_notify e, handleReferralIncrement e d2 (body_ref b))"
  using assms by (simp add: waitlist_signup_def waitlist_referral_eq)

lemma handleError_business:
  "handleError (ErrorObj ''magic_link_error'') = respond 503 (Some ''magic_link_error'')"
  "handleError (ErrorObj ''email_quota_exceeded'') = respond 501 (Some ''email_quota_exceeded'')"
  "handleError (ErrorObj ''email_send_failed'') = respond 502 (Some ''email_send_failed'')"
  by (simp_all add: handleError_def toLowerCase_def lowerChar_def)

lemma waitlist_catch_business:
  "waitlist_catch (ErrorObj ''magic_link_error'') = respond 503 (Some ''magic_link_error'')"
  "waitlist_catch (ErrorObj ''email_quota_exceeded'') = respond 501 (Some ''email_quota_exceeded'')"
  "waitlist_catch (ErrorObj ''email_send_failed'') = respond 502 (Some ''email_send_failed'')"
  by (simp_all add: waitlist_catch_def startsWith_def)

lemma join_serve_inserted:
  assumes "join_reaches e d req b d1" and "insert_signup e d1 b = ((Some row, None), d2)"
  shows "join_serve e d req =
           ((case join_notify e of Inl err \<Rightarrow> handleError err | Inr r \<Rightarrow> r),
            handleReferralIncrement e d2 (body_ref b))"
  using join_serve_reaches [OF assms(1)] join_signup_inserted [OF assms(2)]
  by (simp split: sum.splits)

lemma waitlist_serve_inserted:
  assumes "waitlist_reaches e d req b d1" and "insert_signup e d1 b = ((Some row, None), d2)"
  shows "waitlist_serve e d req =
           ((case waitlist_notify e of Inl err \<Rightarrow> waitlist_catch err | Inr r \<Rightarrow> r),
            handleReferralIncrement e d2 (body_ref b))"
  using waitlist_serve_reaches [OF assms(1)] waitlist_signup_inserted [OF assms(2)]
  by (simp split: sum.splits)

lemma inserted_emails:
  assumes "insert_signup e d1 b = ((Some row, None), d2)" and "signups d1 = signups d"
  shows "map email (signups (handleReferralIncrement e d2 (body_ref b))) = map email (signups d) @ [body_email b]"
  using insert_signup_ok(2) [OF assms(1)] assms(2)
  by (simp add: handleReferralIncrement_emails new_row_def)

lemmas gateway_defs =
  join_reaches_def waitlist_reaches_def handleCors_def validateCors_def post_def client_ip_def
  join_checkRateLimit_def checkRateLimit_def select_rate_limits_def count_rate_limits_def
  insert_rate_limit_def RATE_LIMIT_ENDPOINT_def RATE_LIMIT_MAX_REQUESTS_def MAX_REQUESTS_def
  join_validateHeaders_def validateHeaders_def startsWith_def toLowerCase_def lowerChar_def

lemmas sample_defs =
  calm_def hit_def empty_db_def ada_db_def ada_row_def ada_signup_def link_down_def
  quota_refusal_def insert_signup_def new_row_def no_action_link_def

text \<open>What the two catches make of the error of a rejected request: it has no status,
  no code, and no \<open>quota\<close> in its message.\<close>

lemma email_catch_rejected:
  "join_email_catch fetch_rejected = ErrorObj ''email_send_failed''"
  "waitlist_email_catch fetch_rejected = ErrorObj ''email_send_failed''"
  by (simp_all add: join_email_catch_def waitlist_email_catch_def fetch_rejected_def)

lemma join_notify_link_failure:
  "link_error (link_result e) \<or> no_action_link (link_result e) \<Longrightarrow>
     join_notify e = Inl (ErrorObj ''magic_link_error'')"
  by (auto simp: join_notify_def)

lemma join_notify_rejected:
  "\<not> link_error (link_result e) \<Longrightarrow> \<not> no_action_link (link_result e) \<Longrightarrow>
     email_outcome e = Rejects \<Longrightarrow> join_notify e = Inl (ErrorObj ''email_send_failed'')"
  by (simp add: join_notify_def sendConfirmationEmail_def resend_emails_send_def email_catch_rejected)

lemma join_notify_resolved:
  "\<not> link_error (link_result e) \<Longrightarrow> \<not> no_action_link (link_result e) \<Longrightarrow>
     email_outcome e = Resolves er \<Longrightarrow> join_notify e = Inr (respond 201 None)"
  by (simp add: join_notify_def sendConfirmationEmail_def resend_emails_send_def)

lemma waitlist_notify_link_failure:
  "link_error (link_result e) \<or> link_data (link_result e) = None \<Longrightarrow>
     waitlist_notify e = Inl (ErrorObj ''magic_link_error'')"
  by (auto simp: waitlist_notify_def)

lemma waitlist_notify_rejected:
  "\<not> link_error (link_result e) \<Longrightarrow> link_data (link_result e) = Some ld \<Longrightarrow>
     properties ld = Some ps \<Longrightarrow> email_outcome e = Rejects \<Longrightarrow>
     waitlist_notify e = Inl (ErrorObj ''email_send_failed'')"
  by (simp add: waitlist_notify_def resend_emails_send_def email_catch_rejected)

lemma waitlist_notify_resolved:
  "\<not> link_error (link_result e) \<Longrightarrow> link_data (link_result e) = Some ld \<Longrightarrow>
     properties ld = Some ps \<Longrightarrow> email_outcome e = Resolves er \<Longrightarrow>
     waitlist_notify e = Inr (respond 201 None)"
  by (simp add: waitlist_notify_def resend_emails_send_def)

text \<open>After a successful insert: a failed link generation is answered 503, a dispatch that
  throws (the request to the provider is rejected) is answered 502, and whatever happens
  the store holds the rows it held before, followed by the row of the new email.\<close>

lemma post_insert_outcomes:
  "(join_reaches e d req b d1 \<and> insert_signup e d1 b = ((Some row, None), d2) \<longrightarrow>
      (link_error (link_result e) \<or> no_action_link (link_result e)
         \<longrightarrow> fst (join_serve e d req) = respond 503 (Some ''magic_link_error''))
      \<and> (\<not> link_error (link_result e) \<and> \<not> no_action_link (link_result e) \<and> email_outcome e = Rejects
         \<longrightarrow> fst (join_serve e d req) = respond 502 (Some ''email_send_failed''))
      \<and> map email (signups (snd (join_serve e d req))) = map email (signups d) @ [body_email b])
   \<and> (waitlist_reaches e d req b d1 \<and> insert_signup e d1 b = ((Some row, None), d2) \<longrightarrow>
      (link_error (link_result e) \<or> link_data (link_result e) = None
         \<longrightarrow> fst (waitlist_serve e d req) = respond 503 (Some ''magic_link_error''))
      \<and> (\<not> link_error (link_result e) \<and> link_data (link_result e) = Some ld \<and> properties ld = Some ps
           \<and> email_outcome e = Rejects
         \<longrightarrow> fst (waitlist_serve e d req) = respond 502 (Some ''email_send_failed''))
      \<and> map email (signups (snd (waitlist_serve e d req))) = map email (signups d) @ [body_email b])"
proof (intro conjI impI)
  assume a: "join_reaches e d req b d1 \<and> insert_signup e d1 b = ((Some row, None), d2)"
  note s = join_serve_inserted [of e d req b d1 row d2]
  { assume "link_error (link_result e) \<or> no_action_link (link_result e)"
    then show "fst (join_serve e d req) = respond 503 (Some ''magic_link_error'')"
      using a s by (simp add: join_notify_link_failure handleError_business) }
  { assume "\<not> link_error (link_result e) \<and> \<not> no_action_link (link_result e) \<and> email_outcome e = Rejects"
    then show "fst (join_serve e d req) = respond 502 (Some ''email_send_failed'')"
      using a s by (simp add: join_notify_rejected handleError_business) }
  show "map email (signups (snd (join_serve e d req))) = map email (signups d) @ [body_email b]"
    using a s inserted_emails [of e d1 b row d2 d] join_reaches_signups [of e d req b d1] by simp
next
  assume a: "waitlist_reaches e d req b d1 \<and> insert_signup e d1 b = ((Some row, None), d2)"
  note s = waitlist_serve_inserted [of e d req b d1 row d2]
  { assume "link_error (link_result e) \<or> link_data (link_result e) = None"
    then show "fst (waitlist_serve e d req) = respond 503 (Some ''magic_link_error'')"
      using a s by (simp add: waitlist_notify_link_failure waitlist_catch_business) }
  { assume h: "\<not> link_error (link_result e) \<and> link_data (link_result e) = Some ld \<and> properties ld = Some ps
           \<and> email_outcome e = Rejects"
    then have "waitlist_notify e = Inl (ErrorObj ''email_send_failed'')"
      using waitlist_notify_rejected [of e ld ps] by simp
    then show "fst (waitlist_serve e d req) = respond 502 (Some ''email_send_failed'')"
      using a s by (simp add: waitlist_catch_business) }
  show "map email (signups (snd (waitlist_serve e d req))) = map email (signups d) @ [body_email b]"
    using a s inserted_emails [of e d1 b row d2 d] waitlist_reaches_signups [of e d req b d1] by simp
qed

text \<open>
  C4. A new signup whose confirmation email the provider refuses with 429
  \<open>daily_quota_exceeded\<close>: the client resolves the refusal, neither handler reads what
  the dispatch resolves to, and both answer 201, not 501. The row of the new email stays
  in the store.
\<close>

theorem quota_refusal_after_insert:
  "statusCode quota_refusal = 429 \<and> er_name quota_refusal = ''daily_quota_exceeded''
   \<and> fst (join_serve ((calm 5000)\<lparr>email_outcome := Resolves (Some quota_refusal)\<rparr>) empty_db (post ada_body))
        = respond 201 None
   \<and> map email (signups (snd (join_serve ((calm 5000)\<lparr>email_outcome := Resolves (Some quota_refusal)\<rparr>)
                                  empty_db (post ada_body))))
        = [''ada@example.com'']
   \<and> fst (waitlist_serve ((calm 5000)\<lparr>email_outcome := Resolves (Some quota_refusal)\<rparr>) empty_db (post ada_body))
        = respond 201 None
   \<and> map email (signups (snd (waitlist_serve ((calm 5000)\<lparr>email_outcome := Resolves (Some quota_refusal)\<rparr>)
                                  empty_db (post ada_body))))
        = [''ada@example.com'']"
  by (simp add: join_serve_def join_try_def join_signup_def join_new_user_def join_notify_def
      select_by_email_def handleReferralIncrement_def sendConfirmationEmail_def
      waitlist_serve_def waitlist_try_def waitlist_signup_def waitlist_notify_def
      waitlist_referral_def resend_emails_send_def gateway_defs validate_ada sample_defs)

theorem quota_refusal_after_insert_witness:
  "status (fst (join_serve ((calm 5000)\<lparr>email_outcome := Resolves (Some quota_refusal)\<rparr>)
                  empty_db (post ada_body))) = 201
   \<and> status (fst (waitlist_serve ((calm 5000)\<lparr>email_outcome := Resolves (Some quota_refusal)\<rparr>)
                  empty_db (post ada_body))) = 201"
  using quota_refusal_after_insert by (simp add: respond_def)

section \<open>A refused email\<close>

text \<open>
  C6. A new signup whose email the provider refuses, with status 429 and the name
  \<open>daily_quota_exceeded\<close> or with any other error response: the pinned client resolves
  the refusal, no handler reads what the dispatch resolves to, and the response is the
  201 of a delivered email. The classification into 501 and 502 sits in a \<open>catch\<close> that
  a refusal never reaches.
\<close>

theorem refused_email_answered_created:
  "(join_reaches e d req b d1 \<and> insert_signup e d1 b = ((Some row, None), d2)
      \<and> \<not> link_error (link_result e) \<and> \<not> no_action_link (link_result e)
      \<and> email_outcome e = Resolves (Some refusal)
     \<longrightarrow> fst (join_serve e d req) = respond 201 None)
   \<and> (waitlist_reaches e d req b d1 \<and> insert_signup e d1 b = ((Some row, None), d2)
      \<and> \<not> link_error (link_result e) \<and> link_data (link_result e) = Some ld \<and> properties ld = Some ps
      \<and> email_outcome e = Resolves (Some refusal)
     \<longrightarrow> fst (waitlist_serve e d req) = respond 201 None)"
proof (intro conjI impI)
  assume a: "join_reaches e d req b d1 \<and> insert_signup e d1 b = ((Some row, None), d2)
      \<and> \<not> link_error (link_result e) \<and> \<not> no_action_link (link_result e)
      \<and> email_outcome e = Resolves (Some refusal)"
  then show "fst (join_serve e d req) = respond 201 None"
    using join_serve_inserted [of e d req b d1 row d2] by (simp add: join_notify_resolved)
next
  assume a: "waitlist_reaches e d req b d1 \<and> insert_signup e d1 b = ((Some row, None), d2)
      \<and> \<not> link_error (link_result e) \<and> link_data (link_result e) = Some ld \<and> properties ld = Some ps
      \<and> email_outcome e = Resolves (Some refusal)"
  then have "waitlist_notify e = Inr (respond 201 None)"
    using waitlist_notify_resolved [of e ld ps "Some refusal"] by simp
  then show "fst (waitlist_serve e d req) = respond 201 None"
    using a waitlist_serve_inserted [of e d req b d1 row d2] by simp
qed

theorem refused_email_answered_created_witness:
  "statusCode quota_refusal = 429 \<and> er_name quota_refusal = ''daily_quota_exceeded''
   \<and> join_reaches ((calm 7000)\<lparr>email_outcome := Resolves (Some quota_refusal)\<rparr>) ada_db (post grace_body)
       grace_signup (ada_db\<lparr>rate_limits := [hit 7000]\<rparr>)
   \<and> fst (join_serve ((calm 7000)\<lparr>email_outcome := Resolves (Some quota_refusal)\<rparr>) ada_db (post grace_body))
        = respond 201 None
   \<and> fst (waitlist_serve ((calm 7000)\<lparr>email_outcome := Resolves (Some quota_refusal)\<rparr>) ada_db (post grace_body))
        = respond 201 None"
  using
    refused_email_answered_created [where e = "(calm 7000)\<lparr>email_outcome := Resolves (Some quota_refusal)\<rparr>"
      and d = ada_db and req = "post grace_body" and b = grace_signup
      and ?d1.0 = "ada_db\<lparr>rate_limits := [hit 7000]\<rparr>"
      and row = "new_row ((calm 7000)\<lparr>email_outcome := Resolves (Some quota_refusal)\<rparr>) grace_signup"
      and ?d2.0 = "ada_db\<lparr>rate_limits := [hit 7000],
                     signups := [ada_row, new_row ((calm 7000)\<lparr>email_outcome := Resolves (Some quota_refusal)\<rparr>) grace_signup]\<rparr>"
      and refusal = quota_refusal
      and ld = "\<lparr>properties = Some \<lparr>action_link = Some ''https://auth.example/verify''\<rparr>\<rparr>"
      and ps = "\<lparr>action_link = Some ''https://auth.example/verify''\<rparr>"]
  by (simp add: gateway_defs validate_grace sample_defs grace_signup_def)

section \<open>The returning-user path\<close>

lemma filter_distinct_key:
  "distinct (map f xs) \<Longrightarrow> r \<in> set xs \<Longrightarrow> filter (\<lambda>x. f x = f r) xs = [r]"
proof (induction xs)
  case Nil
  then show ?case by simp
next
  case (Cons a xs)
  show ?case
  proof (cases "a = r")
    case True
    then have "f r \<notin> f ` set xs" using Cons.prems(1) by simp
    then have "\<forall>x\<in>set xs. f x \<noteq> f r" by (metis imageI)
    then have "filter (\<lambda>x. f x = f r) xs = []" by (simp add: filter_empty_conv)
    then show ?thesis using True by simp
  next
    case False
    then have "r \<in> set xs" using Cons.prems(2) by simp
    then have "f a \<noteq> f r" using Cons.prems(1) by auto
    then show ?thesis using Cons.IH Cons.prems \<open>r \<in> set xs\<close> by simp
  qed
qed

lemma select_by_email_found:
  assumes "distinct (map email (signups d))" and "em \<in> set (map email (signups d))"
    and "\<not> existing_select_error e"
  shows "\<exists>p. select_by_email e d em = (Some p, False)"
proof -
  obtain r where r: "r \<in> set (signups d)" "email r = em" using assms(2) by auto
  have "filter (\<lambda>x. email x = email r) (signups d) = [r]"
    using filter_distinct_key [OF assms(1) r(1)] .
  then show ?thesis using assms(3) r(2) by (auto simp: select_by_email_def)
qed

lemma join_new_user_existing_email:
  assumes "body_email b \<in> set (map email (signups d))"
  shows "snd (join_new_user e d b) = d"
proof (cases "insert_fault e")
  case None
  then show ?thesis using assms by (simp add: join_new_user_def insert_signup_existing_email)
next
  case (Some er)
  then show ?thesis by (simp add: join_new_user_def insert_signup_def)
qed

lemma join_signup_existing_email:
  assumes "body_email b \<in> set (map email (signups d))"
  shows "snd (join_signup e d b) = d"
  using join_new_user_existing_email [OF assms, of e]
  by (cases "select_by_email e d (body_email b)") (simp add: join_signup_def split: option.splits)

lemma join_serve_snd:
  "join_reaches e d req b d1 \<Longrightarrow> snd (join_serve e d req) = snd (join_signup e d1 b)"
  using join_serve_reaches [of e d req b d1] by (auto split: prod.splits sum.splits)

lemma join_serve_fst:
  "join_reaches e d req b d1 \<Longrightarrow>
     fst (join_serve e d req) = (case fst (join_signup e d1 b) of Inl err \<Rightarrow> handleError err | Inr r \<Rightarrow> r)"
  using join_serve_reaches [of e d req b d1] by (auto split: prod.splits sum.splits)

lemma waitlist_serve_snd:
  "waitlist_reaches e d req b d1 \<Longrightarrow> snd (waitlist_serve e d req) = snd (waitlist_signup e d1 b)"
  using waitlist_serve_reaches [of e d req b d1] by (auto split: prod.splits sum.splits)

lemma waitlist_serve_fst:
  "waitlist_reaches e d req b d1 \<Longrightarrow>
     fst (waitlist_serve e d req) = (case fst (waitlist_signup e d1 b) of Inl err \<Rightarrow> waitlist_catch err | Inr r \<Rightarrow> r)"
  using waitlist_serve_reaches [of e d req b d1] by (auto split: prod.splits sum.splits)

lemma waitlist_signup_existing_email:
  assumes "body_email b \<in> set (map email (signups d))"
  shows "snd (waitlist_signup e d b) = d"
    and "insert_fault e = None \<Longrightarrow> fst (waitlist_signup e d b) = Inr (respond 409 (Some ''duplicate_entry''))"
proof -
  show "snd (waitlist_signup e d b) = d"
  proof (cases "insert_fault e")
    case None
    then show ?thesis using assms by (simp add: waitlist_signup_def insert_signup_existing_email)
  next
    case (Some er)
    then show ?thesis by (simp add: waitlist_signup_def insert_signup_def)
  qed
  assume "insert_fault e = None"
  then have "fst (insert_signup e d b) = (None, Some (unique_violation ''waitlist_signups_email_key''))"
    using assms by (simp add: insert_signup_existing_email)
  then show "fst (waitlist_signup e d b) = Inr (respond 409 (Some ''duplicate_entry''))"
    using waitlist_signup_duplicate unique_violation_duplicate by (metis fst_conv)
qed

lemma handleError_link: "handleError (ErrorObj ''Failed to generate magic link.'') = respond 500 (Some ''internal_server_error'')"
  by (simp add: handleError_def toLowerCase_def lowerChar_def)


lemma join_returning_ok:
  "\<not> no_action_link (link_result e) \<Longrightarrow> email_outcome e = Resolves er \<Longrightarrow>
     join_returning e = Inr (respond 200 None)"
  by (simp add: join_returning_def resend_emails_send_def)



lemma join_signup_found:
  "select_by_email e d (body_email b) = (Some p, x) \<Longrightarrow> join_signup e d b = (join_returning e, d)"
  by (simp add: join_signup_def)

text \<open>
  C1, as stated, fails: with the email already in the store, the earlier handler answers
  409, and the join-waitlist handler answers 500 when no magic link can be generated.
\<close>

theorem same_email_counterexample:
  "body_email ada_signup \<in> set (map email (signups ada_db))
   \<and> validateWaitlistBody ada_body = Inr ada_signup
   \<and> fst (waitlist_serve (calm 5000) ada_db (post ada_body)) = respond 409 (Some ''duplicate_entry'')
   \<and> validateBody ada_body = Inr ada_signup
   \<and> fst (join_serve ((calm 5000)\<lparr>link_result := link_down\<rparr>) ada_db (post ada_body))
        = respond 500 (Some ''internal_server_error'')"
  by (simp add: waitlist_serve_def waitlist_try_def waitlist_signup_def
      join_serve_def join_try_def join_signup_def select_by_email_def join_returning_def
      handleError_link gateway_defs validate_ada sample_defs unique_violation_def)

text \<open>
  C1, amended. A valid signup request whose email already has a record leaves the
  table of signups as it is: no second record and no referral increment. In the
  join-waitlist handler, when the existence check finds the record, the response is the
  returning-user 200 provided the link service gives an action link and the dispatch
  does not throw. The earlier handler has no existence check: the store rejects the
  insert and the response is 409 \<open>duplicate_entry\<close>.
\<close>

theorem same_email_no_second_record:
  "(join_reaches e d req b d1 \<and> body_email b \<in> set (map email (signups d)) \<longrightarrow>
      snd (join_serve e d req) = d1 \<and> signups d1 = signups d
      \<and> (distinct (map email (signups d)) \<and> \<not> existing_select_error e
           \<and> \<not> no_action_link (link_result e) \<and> email_outcome e = Resolves er
         \<longrightarrow> fst (join_serve e d req) = respond 200 None))
   \<and> (waitlist_reaches e d req b d1 \<and> body_email b \<in> set (map email (signups d)) \<longrightarrow>
      snd (waitlist_serve e d req) = d1 \<and> signups d1 = signups d
      \<and> (insert_fault e = None \<longrightarrow> fst (waitlist_serve e d req) = respond 409 (Some ''duplicate_entry'')))"
proof (intro conjI impI)
  assume a: "join_reaches e d req b d1 \<and> body_email b \<in> set (map email (signups d))"
  then have s: "signups d1 = signups d" using join_reaches_signups [of e d req b d1] by simp
  then show "signups d1 = signups d" .
  have m: "body_email b \<in> set (map email (signups d1))" using a s by simp
  show "snd (join_serve e d req) = d1"
    using a join_serve_snd [of e d req b d1] join_signup_existing_email [OF m] by simp
  assume h: "distinct (map email (signups d)) \<and> \<not> existing_select_error e
           \<and> \<not> no_action_link (link_result e) \<and> email_outcome e = Resolves er"
  then obtain p where p: "select_by_email e d1 (body_email b) = (Some p, False)"
    using select_by_email_found [of d1 "body_email b" e] m s by auto
  have "join_returning e = Inr (respond 200 None)"
    using h join_returning_ok [of e er] by simp
  then have "join_signup e d1 b = (Inr (respond 200 None), d1)"
    using join_signup_found [OF p] by simp
  then show "fst (join_serve e d req) = respond 200 None"
    using a join_serve_fst [of e d req b d1] by simp
next
  assume a: "waitlist_reaches e d req b d1 \<and> body_email b \<in> set (map email (signups d))"
  then have s: "signups d1 = signups d" using waitlist_reaches_signups [of e d req b d1] by simp
  then show "signups d1 = signups d" .
  have m: "body_email b \<in> set (map email (signups d1))" using a s by simp
  show "snd (waitlist_serve e d req) = d1"
    using a waitlist_serve_snd [of e d req b d1] waitlist_signup_existing_email(1) [OF m] by simp
  assume "insert_fault e = None"
  then show "fst (waitlist_serve e d req) = respond 409 (Some ''duplicate_entry'')"
    using a waitlist_serve_fst [of e d req b d1] waitlist_signup_existing_email(2) [OF m] by simp
qed

theorem same_email_no_second_record_witness:
  "join_reaches (calm 5000) ada_db (post ada_body) ada_signup (ada_db\<lparr>rate_limits := [hit 5000]\<rparr>)
   \<and> body_email ada_signup \<in> set (map email (signups ada_db))
   \<and> join_serve (calm 5000) ada_db (post ada_body) = (respond 200 None, ada_db\<lparr>rate_limits := [hit 5000]\<rparr>)
   \<and> waitlist_reaches (calm 5000) ada_db (post ada_body) ada_signup (ada_db\<lparr>rate_limits := [hit 5000]\<rparr>)
   \<and> waitlist_serve (calm 5000) ada_db (post ada_body)
        = (respond 409 (Some ''duplicate_entry''), ada_db\<lparr>rate_limits := [hit 5000]\<rparr>)"
  using
    same_email_no_second_record [where e = "calm 5000" and d = ada_db and req = "post ada_body"
      and b = ada_signup and ?d1.0 = "ada_db\<lparr>rate_limits := [hit 5000]\<rparr>" and er = None]
  by (simp add: gateway_defs validate_ada sample_defs prod_eq_iff)



section \<open>Referral increment\<close>

text \<open>Addition of numbers is exact on the safe integers.\<close>

lemma to_double_exact: "\<bar>x\<bar> < 2 ^ 53 \<Longrightarrow> to_double x = x"
proof -
  assume "\<bar>x\<bar> < 2 ^ 53"
  then have "nat \<bar>x\<bar> < 2 ^ 53" by (simp add: nat_less_iff)
  then have "excess_bits (nat \<bar>x\<bar>) = 0" by (simp add: excess_bits.simps)
  then show ?thesis by (simp add: to_double_def)
qed

lemma excess_bits_limit:
  "excess_bits 9007199254740992 = 1" "excess_bits 9007199254740993 = 1"
  by (simp_all add: excess_bits.simps [of 9007199254740992] excess_bits.simps [of 9007199254740993]
        excess_bits.simps [of 4503599627370496])

lemma to_double_limit:
  "to_double 9007199254740992 = 9007199254740992" "to_double 9007199254740993 = 9007199254740992"
  using excess_bits_limit by (simp_all add: to_double_def)

lemma js_add_one_exact: "\<bar>c\<bar> < 2 ^ 53 \<Longrightarrow> js_add (number_of_int c) 1 = c + 1"
proof -
  assume b: "\<bar>c\<bar> < 2 ^ 53"
  have r: "number_of_int c = c" using b by (simp add: number_of_int_def to_double_exact)
  show ?thesis
  proof (cases "c + 1 = 2 ^ 53")
    case True
    then have "c + 1 = 9007199254740992" by simp
    then show ?thesis using r to_double_limit(1) by (simp add: js_add_def)
  next
    case False
    then have "\<bar>c + 1\<bar> < 2 ^ 53" using b by linarith
    then show ?thesis using r by (simp add: js_add_def to_double_exact)
  qed
qed

lemma js_add_one_limit: "js_add (number_of_int 9007199254740992) 1 = 9007199254740992"
  by (simp add: js_add_def number_of_int_def to_double_limit)

lemma written_count_exact:
  assumes "\<bar>case cnt of None \<Rightarrow> 0 | Some n \<Rightarrow> n\<bar> < (2::int) ^ 53"
  shows "js_add (case cnt of None \<Rightarrow> 0 | Some n \<Rightarrow> number_of_int n) 1
           = (case cnt of None \<Rightarrow> 0 | Some n \<Rightarrow> n) + 1"
proof (cases cnt)
  case None
  then show ?thesis using js_add_one_exact [of 0] by (simp add: number_of_int_def to_double_exact)
next
  case (Some n)
  then show ?thesis using assms js_add_one_exact [of n] by simp
qed

lemma select_by_referral_code_found:
  assumes "distinct (map referral_code (signups d))" and "r \<in> set (signups d)"
    and "\<not> ref_select_error e"
  shows "select_by_referral_code e d (referral_code r) = (Some r, False)"
  using filter_distinct_key [OF assms(1) assms(2)] assms(3) by (simp add: select_by_referral_code_def)

lemma select_by_referral_code_absent:
  assumes "rc \<notin> set (map referral_code (signups d))"
  shows "fst (select_by_referral_code e d rc) = None"
proof -
  have "\<forall>x\<in>set (signups d). referral_code x \<noteq> rc" using assms by (metis imageI set_map)
  then have "filter (\<lambda>x. referral_code x = rc) (signups d) = []" by (simp add: filter_empty_conv)
  then show ?thesis by (simp add: select_by_referral_code_def)
qed

lemma increment_on_match:
  assumes "rc \<noteq> []" and "\<not> ref_select_error e" and "\<not> ref_update_error e"
    and "distinct (map referral_code (signups d))" and "r \<in> set (signups d)" and "referral_code r = rc"
  shows "handleReferralIncrement e d (Some rc) =
           d\<lparr>signups := map (\<lambda>x. if referral_code x = rc
                                 then x\<lparr>referral_count := Some (js_add (case referral_count r of None \<Rightarrow> 0 | Some n \<Rightarrow> number_of_int n) 1)\<rparr>
                                 else x) (signups d)\<rparr>"
  using select_by_referral_code_found [OF assms(4) assms(5) assms(2)] assms(1,3,6)
  by (simp add: handleReferralIncrement_unfold update_referral_count_def)

lemma increment_without_match:
  "rc \<notin> set (map referral_code (signups d)) \<Longrightarrow> handleReferralIncrement e d (Some rc) = d"
  using select_by_referral_code_absent [of rc d e] by (simp add: handleReferralIncrement_unfold)

lemma increment_on_failure:
  "ref_select_error e \<or> ref_update_error e \<Longrightarrow> handleReferralIncrement e d rf = d"
  by (auto simp: handleReferralIncrement_unfold select_by_referral_code_def update_referral_count_def
      split: option.splits)

text \<open>The response does not depend on whether the referral lookup or update fails.\<close>

lemma insert_signup_ref_flags:
  "insert_signup (e\<lparr>ref_select_error := x, ref_update_error := y\<rparr>) d b = insert_signup e d b"
  by (simp add: insert_signup_def new_row_def split: option.splits)

lemma join_new_user_ref_flags:
  "fst (join_new_user (e\<lparr>ref_select_error := x, ref_update_error := y\<rparr>) d b) = fst (join_new_user e d b)"
  by (simp add: join_new_user_def insert_signup_ref_flags join_notify_def sendConfirmationEmail_def resend_emails_send_def
      case_prod_beta split: option.splits)

lemma join_signup_ref_flags:
  "fst (join_signup (e\<lparr>ref_select_error := x, ref_update_error := y\<rparr>) d b) = fst (join_signup e d b)"
  by (simp add: join_signup_def select_by_email_def join_returning_def sendConfirmationEmail_def resend_emails_send_def
      join_new_user_ref_flags case_prod_beta split: option.splits)

lemma join_try_ref_flags:
  "fst (join_try (e\<lparr>ref_select_error := x, ref_update_error := y\<rparr>) d req) = fst (join_try e d req)"
  by (simp add: join_try_def join_signup_ref_flags split: sum.splits)

lemma join_checkRateLimit_ref_flags:
  "join_checkRateLimit (e\<lparr>ref_select_error := x, ref_update_error := y\<rparr>) d ip = join_checkRateLimit e d ip"
  by (simp add: join_checkRateLimit_def select_rate_limits_def insert_rate_limit_def)

lemma fst_finish:
  "fst (case p of (Inl err, d2) \<Rightarrow> (h err, d2) | (Inr r, d2) \<Rightarrow> (r, d2))
     = (case fst p of Inl err \<Rightarrow> h err | Inr r \<Rightarrow> r)"
  by (simp split: prod.splits sum.splits)

lemma join_serve_ref_flags:
  "fst (join_serve (e\<lparr>ref_select_error := x, ref_update_error := y\<rparr>) d req) = fst (join_serve e d req)"
  by (cases "join_checkRateLimit e d (client_ip req)")
    (simp add: join_serve_def join_checkRateLimit_ref_flags join_try_ref_flags fst_finish
      split: option.splits)

lemma waitlist_signup_ref_flags:
  "fst (waitlist_signup (e\<lparr>ref_select_error := x, ref_update_error := y\<rparr>) d b) = fst (waitlist_signup e d b)"
  by (simp add: waitlist_signup_def insert_signup_ref_flags waitlist_notify_def sendConfirmationEmail_def resend_emails_send_def
      case_prod_beta split: option.splits)

lemma waitlist_try_ref_flags:
  "fst (waitlist_try (e\<lparr>ref_select_error := x, ref_update_error := y\<rparr>) d req) = fst (waitlist_try e d req)"
  by (simp add: waitlist_try_def waitlist_signup_ref_flags split: sum.splits)

lemma checkRateLimit_ref_flags:
  "checkRateLimit (e\<lparr>ref_select_error := x, ref_update_error := y\<rparr>) d ip ep = checkRateLimit e d ip ep"
  by (simp add: checkRateLimit_def select_rate_limits_def insert_rate_limit_def)

lemma waitlist_serve_ref_flags:
  "fst (waitlist_serve (e\<lparr>ref_select_error := x, ref_update_error := y\<rparr>) d req) = fst (waitlist_serve e d req)"
  by (cases "checkRateLimit e d (client_ip req) ''join-waitlist''")
    (simp add: waitlist_serve_def checkRateLimit_ref_flags waitlist_try_ref_flags fst_finish
      split: option.splits)


lemma inserted_referral_match:
  assumes ins: "insert_signup e d1 b = ((Some row, None), d2)" and s: "signups d1 = signups d"
    and m: "body_ref b = Some rc" "rc \<noteq> []" "r \<in> set (signups d)" "referral_code r = rc"
      "distinct (map referral_code (signups d))" "\<not> ref_select_error e" "\<not> ref_update_error e"
  shows "signups (handleReferralIncrement e d2 (body_ref b)) =
           map (\<lambda>x. if referral_code x = rc
                     then x\<lparr>referral_count := Some (js_add (case referral_count r of None \<Rightarrow> 0 | Some n \<Rightarrow> number_of_int n) 1)\<rparr>
                     else x) (signups d) @ [row]"
proof -
  note i = insert_signup_ok [OF ins]
  have d2: "signups d2 = signups d @ [row]" using i(1,2) s by simp
  have fresh: "referral_code row \<notin> set (map referral_code (signups d))"
    using i(1,4) s by (simp add: new_row_def)
  have "rc \<in> set (map referral_code (signups d))" using m(3,4) by auto
  then have ne: "referral_code row \<noteq> rc" using fresh by auto
  have dist: "distinct (map referral_code (signups d2))" using d2 m(5) fresh by simp
  have mem: "r \<in> set (signups d2)" using d2 m(3) by simp
  show ?thesis
    using increment_on_match [OF m(2) m(6) m(7) dist mem m(4)] m(1) d2 ne by simp
qed

lemma inserted_referral_match_exact:
  assumes ins: "insert_signup e d1 b = ((Some row, None), d2)" and s: "signups d1 = signups d"
    and m: "body_ref b = Some rc" "rc \<noteq> []" "r \<in> set (signups d)" "referral_code r = rc"
      "distinct (map referral_code (signups d))" "\<not> ref_select_error e" "\<not> ref_update_error e"
    and bound: "\<bar>case referral_count r of None \<Rightarrow> 0 | Some n \<Rightarrow> n\<bar> < (2::int) ^ 53"
  shows "signups (handleReferralIncrement e d2 (body_ref b)) =
           map (\<lambda>x. if referral_code x = rc
                     then x\<lparr>referral_count := Some ((case referral_count r of None \<Rightarrow> 0 | Some n \<Rightarrow> n) + 1)\<rparr>
                     else x) (signups d) @ [row]"
  using inserted_referral_match [OF ins s m] written_count_exact [OF bound] by simp

lemma inserted_referral_no_match:
  assumes ins: "insert_signup e d1 b = ((Some row, None), d2)" and s: "signups d1 = signups d"
    and m: "body_ref b = Some rc" "rc \<notin> set (map referral_code (signups d))" "rc \<noteq> referral_code row"
  shows "signups (handleReferralIncrement e d2 (body_ref b)) = signups d @ [row]"
proof -
  note i = insert_signup_ok [OF ins]
  have d2: "signups d2 = signups d @ [row]" using i(1,2) s by simp
  then have "rc \<notin> set (map referral_code (signups d2))" using m(2,3) by auto
  then show ?thesis using increment_without_match [of rc d2 e] m(1) d2 by simp
qed

lemma inserted_referral_failure:
  assumes ins: "insert_signup e d1 b = ((Some row, None), d2)" and s: "signups d1 = signups d"
    and m: "ref_select_error e \<or> ref_update_error e"
  shows "signups (handleReferralIncrement e d2 (body_ref b)) = signups d @ [row]"
  using insert_signup_ok(1,2) [OF ins] s increment_on_failure [OF m, of d2 "body_ref b"] by simp

text \<open>
  C2, as stated, fails: the handlers add 1 to the count as a number, and at the count
  \<open>2 ^ 53\<close> that sum is \<open>2 ^ 53\<close> again. A successful signup referred by such a record
  writes its count back unchanged.
\<close>

theorem referral_increment_counterexample:
  "map referral_count (signups ada_at_limit_db) = [Some 9007199254740992]
   \<and> fst (join_serve (calm 5000) ada_at_limit_db (post grace_body)) = respond 201 None
   \<and> map referral_count (signups (snd (join_serve (calm 5000) ada_at_limit_db (post grace_body))))
        = [Some 9007199254740992, Some 0]
   \<and> fst (waitlist_serve (calm 5000) ada_at_limit_db (post grace_body)) = respond 201 None
   \<and> map referral_count (signups (snd (waitlist_serve (calm 5000) ada_at_limit_db (post grace_body))))
        = [Some 9007199254740992, Some 0]"
  by (simp add: join_serve_def join_try_def join_signup_def join_new_user_def join_notify_def
      select_by_email_def select_by_referral_code_def update_referral_count_def single_def
      handleReferralIncrement_unfold sendConfirmationEmail_def resend_emails_send_def
      waitlist_serve_def waitlist_try_def waitlist_signup_def waitlist_notify_def
      waitlist_referral_eq js_add_one_limit ada_at_limit_db_def grace_signup_def
      gateway_defs validate_grace sample_defs)

text \<open>
  C2, amended. For a request that reached the signup step and whose insert succeeded, in
  both handlers: when the ref code is that of a record of the table (referral codes
  being unique), neither the lookup nor the update fails, and the count of that record
  (an absent count read as 0) is below \<open>2 ^ 53\<close> in magnitude, the count becomes the old
  count plus one, and nothing else in the table changes but the new row at its end;
  when the ref code matches no record, or the lookup or the update fails, the table is
  the old one followed by the new row. The response is the same whether or not the
  lookup or the update fails, and it is 201 when link generation succeeds and the
  dispatch does not throw.
\<close>

theorem referral_increment:
  "(join_reaches e d req b d1 \<and> insert_signup e d1 b = ((Some row, None), d2) \<longrightarrow>
      (body_ref b = Some rc \<and> rc \<noteq> [] \<and> r \<in> set (signups d) \<and> referral_code r = rc
          \<and> distinct (map referral_code (signups d)) \<and> \<not> ref_select_error e \<and> \<not> ref_update_error e
          \<and> \<bar>case referral_count r of None \<Rightarrow> 0 | Some n \<Rightarrow> n\<bar> < 2 ^ 53
        \<longrightarrow> signups (snd (join_serve e d req)) =
              map (\<lambda>x. if referral_code x = rc
                        then x\<lparr>referral_count := Some ((case referral_count r of None \<Rightarrow> 0 | Some n \<Rightarrow> n) + 1)\<rparr>
                        else x) (signups d) @ [row])
      \<and> (body_ref b = Some rc \<and> rc \<notin> set (map referral_code (signups d)) \<and> rc \<noteq> referral_code row
        \<longrightarrow> signups (snd (join_serve e d req)) = signups d @ [row])
      \<and> (ref_select_error e \<or> ref_update_error e
        \<longrightarrow> signups (snd (join_serve e d req)) = signups d @ [row])
      \<and> (\<not> link_error (link_result e) \<and> \<not> no_action_link (link_result e) \<and> email_outcome e = Resolves er
        \<longrightarrow> fst (join_serve e d req) = respond 201 None))
   \<and> fst (join_serve (e\<lparr>ref_select_error := x, ref_update_error := y\<rparr>) d req) = fst (join_serve e d req)
   \<and> (waitlist_reaches e d req b d1 \<and> insert_signup e d1 b = ((Some row, None), d2) \<longrightarrow>
      (body_ref b = Some rc \<and> rc \<noteq> [] \<and> r \<in> set (signups d) \<and> referral_code r = rc
          \<and> distinct (map referral_code (signups d)) \<and> \<not> ref_select_error e \<and> \<not> ref_update_error e
          \<and> \<bar>case referral_count r of None \<Rightarrow> 0 | Some n \<Rightarrow> n\<bar> < 2 ^ 53
        \<longrightarrow> signups (snd (waitlist_serve e d req)) =
              map (\<lambda>x. if referral_code x = rc
                        then x\<lparr>referral_count := Some ((case referral_count r of None \<Rightarrow> 0 | Some n \<Rightarrow> n) + 1)\<rparr>
                        else x) (signups d) @ [row])
      \<and> (body_ref b = Some rc \<and> rc \<notin> set (map referral_code (signups d)) \<and> rc \<noteq> referral_code row
        \<longrightarrow> signups (snd (waitlist_serve e d req)) = signups d @ [row])
      \<and> (ref_select_error e \<or> ref_update_error e
        \<longrightarrow> signups (snd (waitlist_serve e d req)) = signups d @ [row])
      \<and> (\<not> link_error (link_result e) \<and> link_data (link_result e) = Some ld \<and> properties ld = Some ps
          \<and> email_outcome e = Resolves er
        \<longrightarrow> fst (waitlist_serve e d req) = respond 201 None))
   \<and> fst (waitlist_serve (e\<lparr>ref_select_error := x, ref_update_error := y\<rparr>) d req) = fst (waitlist_serve e d req)"
proof (intro conjI impI)
  assume a: "join_reaches e d req b d1 \<and> insert_signup e d1 b = ((Some row, None), d2)"
  then have ins: "insert_signup e d1 b = ((Some row, None), d2)" by simp
  have s: "signups d1 = signups d" using a join_reaches_signups [of e d req b d1] by simp
  have j: "join_serve e d req =
           ((case join_notify e of Inl err \<Rightarrow> handleError err | Inr r \<Rightarrow> r),
            handleReferralIncrement e d2 (body_ref b))"
    using a join_serve_inserted [of e d req b d1 row d2] by simp
  { assume "body_ref b = Some rc \<and> rc \<noteq> [] \<and> r \<in> set (signups d) \<and> referral_code r = rc
          \<and> distinct (map referral_code (signups d)) \<and> \<not> ref_select_error e \<and> \<not> ref_update_error e
          \<and> \<bar>case referral_count r of None \<Rightarrow> 0 | Some n \<Rightarrow> n\<bar> < 2 ^ 53"
    then show "signups (snd (join_serve e d req)) =
              map (\<lambda>x. if referral_code x = rc
                        then x\<lparr>referral_count := Some ((case referral_count r of None \<Rightarrow> 0 | Some n \<Rightarrow> n) + 1)\<rparr>
                        else x) (signups d) @ [row]"
      using j inserted_referral_match_exact [OF ins s, of rc r] by simp }
  { assume "body_ref b = Some rc \<and> rc \<notin> set (map referral_code (signups d)) \<and> rc \<noteq> referral_code row"
    then show "signups (snd (join_serve e d req)) = signups d @ [row]"
      using j inserted_referral_no_match [OF ins s, of rc] by simp }
  { assume "ref_select_error e \<or> ref_update_error e"
    then show "signups (snd (join_serve e d req)) = signups d @ [row]"
      using j inserted_referral_failure [OF ins s] by simp }
  { assume "\<not> link_error (link_result e) \<and> \<not> no_action_link (link_result e) \<and> email_outcome e = Resolves er"
    then show "fst (join_serve e d req) = respond 201 None"
      using j join_notify_resolved [of e er] by simp }
next
  show "fst (join_serve (e\<lparr>ref_select_error := x, ref_update_error := y\<rparr>) d req) = fst (join_serve e d req)"
    by (rule join_serve_ref_flags)
next
  assume a: "waitlist_reaches e d req b d1 \<and> insert_signup e d1 b = ((Some row, None), d2)"
  then have ins: "insert_signup e d1 b = ((Some row, None), d2)" by simp
  have s: "signups d1 = signups d" using a waitlist_reaches_signups [of e d req b d1] by simp
  have j: "waitlist_serve e d req =
           ((case waitlist_notify e of Inl err \<Rightarrow> waitlist_catch err | Inr r \<Rightarrow> r),
            handleReferralIncrement e d2 (body_ref b))"
    using a waitlist_serve_inserted [of e d req b d1 row d2] by simp
  { assume "body_ref b = Some rc \<and> rc \<noteq> [] \<and> r \<in> set (signups d) \<and> referral_code r = rc
          \<and> distinct (map referral_code (signups d)) \<and> \<not> ref_select_error e \<and> \<not> ref_update_error e
          \<and> \<bar>case referral_count r of None \<Rightarrow> 0 | Some n \<Rightarrow> n\<bar> < 2 ^ 53"
    then show "signups (snd (waitlist_serve e d req)) =
              map (\<lambda>x. if referral_code x = rc
                        then x\<lparr>referral_count := Some ((case referral_count r of None \<Rightarrow> 0 | Some n \<Rightarrow> n) + 1)\<rparr>
                        else x) (signups d) @ [row]"
      using j inserted_referral_match_exact [OF ins s, of rc r] by simp }
  { assume "body_ref b = Some rc \<and> rc \<notin> set (map referral_code (signups d)) \<and> rc \<noteq> referral_code row"
    then show "signups (snd (waitlist_serve e d req)) = signups d @ [row]"
      using j inserted_referral_no_match [OF ins s, of rc] by simp }
  { assume "ref_select_error e \<or> ref_update_error e"
    then show "signups (snd (waitlist_serve e d req)) = signups d @ [row]"
      using j inserted_referral_failure [OF ins s] by simp }
  { assume "\<not> link_error (link_result e) \<and> link_data (link_result e) = Some ld \<and> properties ld = Some ps
          \<and> email_outcome e = Resolves er"
    then show "fst (waitlist_serve e d req) = respond 201 None"
      using j waitlist_notify_resolved [of e ld ps er] by simp }
next
  show "fst (waitlist_serve (e\<lparr>ref_select_error := x, ref_update_error := y\<rparr>) d req) = fst (waitlist_serve e d req)"
    by (rule waitlist_serve_ref_flags)
qed

theorem referral_increment_witness:
  "join_reaches (calm 5000) ada_db (post grace_body) grace_signup (ada_db\<lparr>rate_limits := [hit 5000]\<rparr>)
   \<and> insert_signup (calm 5000) (ada_db\<lparr>rate_limits := [hit 5000]\<rparr>) grace_signup
        = ((Some grace_row, None), \<lparr>signups = [ada_row, grace_row], rate_limits = [hit 5000]\<rparr>)
   \<and> referral_count ada_row = Some 2
   \<and> fst (join_serve (calm 5000) ada_db (post grace_body)) = respond 201 None
   \<and> signups (snd (join_serve (calm 5000) ada_db (post grace_body)))
        = [ada_row\<lparr>referral_count := Some 3\<rparr>, grace_row]
   \<and> fst (waitlist_serve (calm 5000) ada_db (post grace_body)) = respond 201 None
   \<and> signups (snd (waitlist_serve (calm 5000) ada_db (post grace_body)))
        = [ada_row\<lparr>referral_count := Some 3\<rparr>, grace_row]
   \<and> fst (join_serve ((calm 5000)\<lparr>ref_update_error := True\<rparr>) ada_db (post grace_body)) = respond 201 None
   \<and> signups (snd (join_serve ((calm 5000)\<lparr>ref_update_error := True\<rparr>) ada_db (post grace_body)))
        = [ada_row, grace_row]
   \<and> fst (join_serve (calm 5000) empty_db (post grace_body)) = respond 201 None
   \<and> signups (snd (join_serve (calm 5000) empty_db (post grace_body))) = [grace_row]"
  using
    referral_increment [where e = "calm 5000" and d = ada_db and req = "post grace_body"
      and b = grace_signup and ?d1.0 = "ada_db\<lparr>rate_limits := [hit 5000]\<rparr>" and row = grace_row
      and ?d2.0 = "\<lparr>signups = [ada_row, grace_row], rate_limits = [hit 5000]\<rparr>"
      and rc = "''ADA00001''" and r = ada_row and x = False and y = True and er = None
      and ld = "\<lparr>properties = Some \<lparr>action_link = Some ''https://auth.example/verify''\<rparr>\<rparr>"
      and ps = "\<lparr>action_link = Some ''https://auth.example/verify''\<rparr>"]
    referral_increment [where e = "(calm 5000)\<lparr>ref_update_error := True\<rparr>" and d = ada_db
      and req = "post grace_body"
      and b = grace_signup and ?d1.0 = "ada_db\<lparr>rate_limits := [hit 5000]\<rparr>" and row = grace_row
      and ?d2.0 = "\<lparr>signups = [ada_row, grace_row], rate_limits = [hit 5000]\<rparr>"
      and rc = "''ADA00001''" and r = ada_row and x = False and y = True and er = None
      and ld = "\<lparr>properties = Some \<lparr>action_link = Some ''https://auth.example/verify''\<rparr>\<rparr>"
      and ps = "\<lparr>action_link = Some ''https://auth.example/verify''\<rparr>"]
    referral_increment [where e = "calm 5000" and d = empty_db and req = "post grace_body"
      and b = grace_signup and ?d1.0 = "empty_db\<lparr>rate_limits := [hit 5000]\<rparr>" and row = grace_row
      and ?d2.0 = "\<lparr>signups = [grace_row], rate_limits = [hit 5000]\<rparr>"
      and rc = "''ADA00001''" and r = ada_row and x = False and y = False and er = None
      and ld = "\<lparr>properties = Some \<lparr>action_link = Some ''https://auth.example/verify''\<rparr>\<rparr>"
      and ps = "\<lparr>action_link = Some ''https://auth.example/verify''\<rparr>"]
  by (simp add: gateway_defs validate_grace sample_defs grace_signup_def grace_row_def)


section \<open>Order of the validation checks\<close>






lemma trim_samples: "trim ''   '' = []" "trim ''Ada Lovelace'' = ''Ada Lovelace''"
  by (simp_all add: trim_def trimStart_def isSpace_def)



section \<open>A non-string email\<close>

text \<open>The earlier validator reads every value that is not a string as the empty string.\<close>

lemma validateWaitlistBody_non_string_email:
  assumes "\<not> falsy raw" and "typeof raw = ''object''"
    and "getProp raw ''full_name'' = Some (JStr s)" and "trim s \<noteq> []"
    and "getProp raw ''email'' = Some v" and "typeof v \<noteq> ''string''"
  shows "validateWaitlistBody raw = Inl (ErrorObj ''Email field is required.'')"
proof -
  have "str_trim_or (Some v) = None" using assms(6) by (cases v) simp_all
  then show ?thesis using assms(1-5) by (simp add: validateWaitlistBody_def)
qed

text \<open>
  C10. The body \<open>{"full_name": "Ada Lovelace", "email": 5}\<close>: in the join-waitlist
  handler the optional chaining calls \<open>trim\<close> on the number, the \<open>TypeError\<close> reaches
  the generic handler and the answer is 500; the earlier handler answers it with the
  email-required error, 400.
\<close>

theorem non_string_email_type_error:
  "getProp numeric_email_body ''email'' = Some (JNum 5)
   \<and> validateBody numeric_email_body = Inl (ErrorObj ''raw.email?.trim is not a function'')
   \<and> fst (join_serve (calm 5000) empty_db (post numeric_email_body))
        = respond 500 (Some ''internal_server_error'')
   \<and> validateWaitlistBody numeric_email_body = Inl (ErrorObj ''Email field is required.'')
   \<and> fst (waitlist_serve (calm 5000) empty_db (post numeric_email_body))
        = respond 400 (Some ''invalid_request_body'')"
  by (simp add: numeric_email_body_def validateBody_def validateWaitlistBody_def trim_samples
      join_serve_def join_try_def waitlist_serve_def waitlist_try_def handleError_def
      waitlist_catch_def gateway_defs sample_defs)

theorem non_string_email_type_error_witness:
  "status (fst (join_serve (calm 5000) empty_db (post numeric_email_body))) = 500
   \<and> status (fst (waitlist_serve (calm 5000) empty_db (post numeric_email_body))) = 400"
  using non_string_email_type_error by (simp add: respond_def)

section \<open>Leaderboard\<close>

lemma with_rank_length: "length (with_rank data) = length data"
  by (simp add: with_rank_def enumerate_eq_zip)

lemma with_rank_nth:
  "i < length data \<Longrightarrow> with_rank data ! i = leader.extend (data ! i) \<lparr>rank = i + 1\<rparr>"
  by (simp add: with_rank_def nth_enumerate_eq)

lemma with_rank_counts: "map l_referral_count (with_rank data) = map l_referral_count data"
  by (rule nth_equalityI) (simp_all add: with_rank_length with_rank_nth leader.defs)

lemma with_rank_ranks: "map rank (with_rank data) = [1..<Suc (length data)]"
  by (rule nth_equalityI) (simp_all add: with_rank_length with_rank_nth leader.defs del: upt_Suc)

lemma order_desc_limit_length: "length (order_desc_limit rows) \<le> 10"
  by (simp add: order_desc_limit_def)

lemma sorted_neg_counts:
  "sorted (map (\<lambda>r. - l_referral_count r) xs) \<Longrightarrow> sorted_wrt (\<lambda>a b. b \<le> a) (map l_referral_count xs)"
  by (induction xs) auto

lemma order_desc_limit_sorted:
  "sorted_wrt (\<lambda>a b. b \<le> a) (map l_referral_count (order_desc_limit rows))"
proof -
  have "sorted (map (\<lambda>r. - l_referral_count r) (sort_key (\<lambda>r. - l_referral_count r) rows))"
    by (rule sorted_sort_key)
  then have "sorted_wrt (\<lambda>a b. b \<le> a) (map l_referral_count (sort_key (\<lambda>r. - l_referral_count r) rows))"
    by (rule sorted_neg_counts)
  then show ?thesis
    by (simp add: order_desc_limit_def take_map [symmetric])
qed

text \<open>
  C7. For a GET request, with the store's answer to the query (the rows of the view
  ordered by descending count, the first ten): the response is 200 and its rows are at
  most ten, their counts never increase from one row to the next, and the ranks are
  1, 2, ... in the order of the rows.
\<close>

theorem leaderboard_top_ten:
  "leaderboard_serve ''GET'' (Some (order_desc_limit rows))
     = \<lparr>lb_status = 200, lb_body = Rows (with_rank (order_desc_limit rows))\<rparr>
   \<and> length (with_rank (order_desc_limit rows)) \<le> 10
   \<and> sorted_wrt (\<lambda>a b. b \<le> a) (map l_referral_count (with_rank (order_desc_limit rows)))
   \<and> map rank (with_rank (order_desc_limit rows)) = [1..<Suc (length (with_rank (order_desc_limit rows)))]"
  by (simp add: leaderboard_serve_def with_rank_length with_rank_counts with_rank_ranks
      order_desc_limit_length order_desc_limit_sorted)


theorem leaderboard_top_ten_witness:
  "leaderboard_serve ''GET'' (Some (order_desc_limit sample_view))
     = \<lparr>lb_status = 200,
        lb_body = Rows
          [\<lparr>l_full_name = ''Grace'', l_referral_code = ''GRA00001'', l_referral_count = 7, rank = 1\<rparr>,
           \<lparr>l_full_name = ''Ada'', l_referral_code = ''ADA00001'', l_referral_count = 2, rank = 2\<rparr>,
           \<lparr>l_full_name = ''Edsger'', l_referral_code = ''EDS00001'', l_referral_count = 2, rank = 3\<rparr>]\<rparr>
   \<and> map rank (with_rank (order_desc_limit sample_view)) = [1, 2, 3]"
  using leaderboard_top_ten [of sample_view]
  by (simp add: sample_view_def order_desc_limit_def with_rank_def enumerate_eq_zip leader.defs
      upt_rec numeral_eq_Suc)

end
